theory Spec2Isabelle
  imports Complex_Main "HOL-Library.AList"
begin

text \<open>
  A model of the Hodie Labs visualization service (\<^verbatim>\<open>visualization-service/app.py\<close>):
  the Flask handlers as functions from the state of the service and a decoded request to
  the new state and the response, with the plotting backend, NumPy, \<^verbatim>\<open>uuid4\<close>, the
  clocks and the conversion of timestamps as explicit inputs, followed by the properties
  of the validation, the charts, the image directory and the cleanup sweep.
\<close>

section \<open>The image directory\<close>

text \<open>
  \<^verbatim>\<open>IMAGE_DIR\<close> is a flat directory that only \<^verbatim>\<open>save_figure\<close> writes to, so the
  model holds regular files only: a name, the bytes and the modification time, which is
  the number \<^verbatim>\<open>os.path.getmtime\<close> returns (seconds since the epoch). The directory is
  an association list; its order stands for the arbitrary order of \<^verbatim>\<open>os.listdir\<close>. A
  directory has each name once: \<open>distinct (map fst d)\<close>. The names \<^verbatim>\<open>.\<close> and
  \<^verbatim>\<open>..\<close> are never listed, and they always exist: they are \<^verbatim>\<open>IMAGE_DIR\<close> itself
  and its parent, both directories.
\<close>

record stored_file =
  content :: string
  mtime :: real

type_synonym directory = "(string \<times> stored_file) list"

text \<open>
  Exceptions are values. \<open>BackendError\<close> is whatever the plotting backend raises
  while drawing or writing a figure.
\<close>

datatype exn =
    FileNotFoundError string
  | IsADirectoryError string
  | ValueError string
  | IndexError
  | ZeroDivisionError
  | BackendError string

text \<open>
  What a handler returns: the JSON body with its status. A 500 body is
  \<^verbatim>\<open>{'error': str(e)}\<close>; the model keeps the exception itself.
\<close>

datatype 'a response =
    Ok200 'a
  | Err400 string
  | Err404 string
  | Err500 exn

definition os_listdir :: "directory \<Rightarrow> string list" where
  "os_listdir d = map fst d"

definition os_path_exists :: "directory \<Rightarrow> string \<Rightarrow> bool" where
  "os_path_exists d f = (f = ''.'' \<or> f = ''..'' \<or> map_of d f \<noteq> None)"

definition os_path_isfile :: "directory \<Rightarrow> string \<Rightarrow> bool" where
  "os_path_isfile d f = (map_of d f \<noteq> None)"

definition os_path_getmtime :: "directory \<Rightarrow> string \<Rightarrow> exn + real" where
  "os_path_getmtime d f =
     (case map_of d f of None \<Rightarrow> Inl (FileNotFoundError f) | Some s \<Rightarrow> Inr (mtime s))"

definition os_remove :: "directory \<Rightarrow> string \<Rightarrow> exn + directory" where
  "os_remove d f =
     (case map_of d f of
        None \<Rightarrow> Inl (FileNotFoundError f)
      | Some s \<Rightarrow> Inr (AList.delete f d))"

text \<open>Opening a file for writing creates it or truncates the one of that name.\<close>

definition write_file :: "directory \<Rightarrow> string \<Rightarrow> string \<Rightarrow> real \<Rightarrow> directory" where
  "write_file d f bytes t = AList.update f \<lparr>content = bytes, mtime = t\<rparr> d"

section \<open>External collaborators and the state of the service\<close>

text \<open>
  A cell of an array or of a column of the data frame is a number of the request or, where
  a record lacks the field, NaN, written \<open>None\<close>. What NumPy computes from an array is a
  64-bit float: a number, an infinity or NaN. The model does no floating-point arithmetic
  of its own.
\<close>

type_synonym npfloat = "real option"

datatype float64 = Float real | PosInf | NegInf | NaN

text \<open>
  What the handlers hand to the plotting backend, as far as the drawn data goes: titles,
  axis labels, font sizes and transparency are passed on unchanged and left out.
\<close>

record series =
  sx :: "npfloat list"
  sy :: "npfloat list"
  s_color :: string
  s_label :: "string option"

datatype axes =
    Blank
  | Hidden
  | HistAxes "npfloat list" int string float64

datatype bar_labels = HeightLabels | CountPctLabels "(nat \<times> nat \<times> nat) list"

datatype figure =
    Histogram "real list" int float64 float64 float64
  | Scatter "series list" bool
  | Subplots nat nat "axes list"
  | BarChart "string list" "real list" "string list" bar_labels

text \<open>
  \<open>HistAxes values bins color mean\<close> is one \<^verbatim>\<open>ax.hist\<close> with its mean line;
  \<open>Histogram values bins mean median std\<close> is the single histogram with its statistics
  box; \<open>Scatter series legend\<close> has one \<^verbatim>\<open>ax.scatter\<close> call per series;
  \<open>Subplots rows cols axes\<close> is \<^verbatim>\<open>plt.subplots(rows, cols)\<close> with the axes
  flattened; \<open>BarChart categories heights colors labels\<close> is one \<^verbatim>\<open>ax.bar\<close>
  with the text over each bar: \<open>HeightLabels\<close> writes the integer part of each bar's
  height, as the backend reports it, and \<open>CountPctLabels\<close> has, for each bar, the
  count \<open>val\<close> and the quotient \<open>val / total\<close> whose hundredfold is printed as the
  percentage; the quotient is a float and is kept as the pair of its operands.

  The collaborators are parameters: \<open>draw\<close> is the plotting backend, from the first
  \<^verbatim>\<open>ax\<close> call to \<^verbatim>\<open>fig.savefig\<close>, returning the PNG bytes or raising;
  \<open>b64encode\<close> is \<^verbatim>\<open>base64.b64encode\<close>; \<open>uuid4_hex k\<close> is what the k-th call
  of \<^verbatim>\<open>uuid.uuid4().hex\<close> in this process returns (32 hexadecimal digits);
  \<open>np_mean\<close>, \<open>np_median\<close> and \<open>np_std\<close> are \<^verbatim>\<open>np.mean\<close>, \<^verbatim>\<open>np.median\<close>
  and \<^verbatim>\<open>np.std\<close>, each called with the array alone; \<open>fromtimestamp\<close> is
  \<^verbatim>\<open>datetime.fromtimestamp\<close>, which gives the naive local datetime of a timestamp,
  here in microseconds since the local epoch, or raises when the timestamp is out of
  range.

  The state is the directory, the time the operating system stamps on a file written
  now (\<open>clock\<close>), what \<^verbatim>\<open>datetime.now()\<close> returns now (\<open>local_now\<close>, a naive
  local datetime in microseconds as well) and the number of UUIDs drawn so far.
\<close>

record ext =
  draw :: "figure \<Rightarrow> exn + string"
  b64encode :: "string \<Rightarrow> string"
  uuid4_hex :: "nat \<Rightarrow> string"
  np_mean :: "npfloat list \<Rightarrow> float64"
  np_median :: "npfloat list \<Rightarrow> float64"
  np_std :: "npfloat list \<Rightarrow> float64"
  fromtimestamp :: "real \<Rightarrow> exn + int"

record world =
  image_dir :: directory
  clock :: real
  local_now :: int
  uuid_calls :: nat

record descriptor =
  filename :: string
  url :: string
  base64 :: string
  timestamp :: int

section \<open>Saving a figure\<close>

text \<open>
  \<^verbatim>\<open>
  def save_figure(fig, prefix='chart'):
      filename = f"{prefix}_{uuid.uuid4().hex[:8]}.png"
      filepath = os.path.join(IMAGE_DIR, filename)
      fig.savefig(filepath, dpi=150, ...)
      buffer = io.BytesIO()
      fig.savefig(buffer, format='png', ...)
      image_base64 = base64.b64encode(buffer.read()).decode('utf-8')
      return {'filename': filename, 'url': f'/api/images/{filename}',
              'base64': f'data:image/png;base64,{image_base64}',
              'timestamp': datetime.now().isoformat()}
  \<close>
  A failure of the backend is taken to happen while the figure is drawn, before
  \<^verbatim>\<open>uuid4\<close> is called and before anything is written.
\<close>

definition save_figure :: "ext \<Rightarrow> world \<Rightarrow> figure \<Rightarrow> string \<Rightarrow> exn + (world \<times> descriptor)" where
  "save_figure E w fig prefix =
     (case draw E fig of
        Inl e \<Rightarrow> Inl e
      | Inr png \<Rightarrow>
          (let fname = prefix @ ''_'' @ take 8 (uuid4_hex E (uuid_calls w)) @ ''.png'' in
           Inr (w\<lparr>image_dir := write_file (image_dir w) fname png (clock w),
                   uuid_calls := Suc (uuid_calls w)\<rparr>,
                \<lparr>filename = fname,
                 url = ''/api/images/'' @ fname,
                 base64 = ''data:image/png;base64,'' @ b64encode E png,
                 timestamp = local_now w\<rparr>)))"

section \<open>Serving an image\<close>

text \<open>
  \<^verbatim>\<open>
  def serve_image(filename):
      filepath = os.path.join(IMAGE_DIR, filename)
      if os.path.exists(filepath):
          return send_file(filepath, mimetype='image/png')
      return jsonify({'error': 'Image not found'}), 404
  \<close>
  \<^verbatim>\<open>send_file\<close> opens the path; on a directory that raises \<^verbatim>\<open>IsADirectoryError\<close>.
  The handler has no \<^verbatim>\<open>try\<close>, so Flask answers an exception with a 500. The file
  name is one segment of the URL and has no slash in it.
\<close>

definition send_file :: "directory \<Rightarrow> string \<Rightarrow> exn + string" where
  "send_file d f =
     (if f = ''.'' \<or> f = ''..'' then Inl (IsADirectoryError f)
      else (case map_of d f of
              None \<Rightarrow> Inl (FileNotFoundError f)
            | Some s \<Rightarrow> Inr (content s)))"

definition serve_image :: "world \<Rightarrow> string \<Rightarrow> string response" where
  "serve_image w fname =
     (if os_path_exists (image_dir w) fname
      then (case send_file (image_dir w) fname of
              Inr bytes \<Rightarrow> Ok200 bytes
            | Inl e \<Rightarrow> Err500 e)
      else Err404 ''Image not found'')"

section \<open>The cleanup sweep\<close>

text \<open>
  \<^verbatim>\<open>
  def cleanup_old_images():
      try:
          now = datetime.now()
          deleted = 0
          for filename in os.listdir(IMAGE_DIR):
              filepath = os.path.join(IMAGE_DIR, filename)
              if os.path.isfile(filepath):
                  file_age = now - datetime.fromtimestamp(os.path.getmtime(filepath))
                  if file_age.total_seconds() > 86400:  # 24 hours
                      os.remove(filepath)
                      deleted += 1
          return jsonify({'success': True, 'deleted': deleted, 'message': ...})
      except Exception as e:
          return jsonify({'error': str(e)}), 500
  \<close>
  The loop runs over the listing taken at its start, while other requests and other
  sweeps work on the same directory. What they do is an explicit parameter: before each
  of the three system calls the sweep makes on an entry, the environment may change the
  directory. \<open>quiet\<close> is the environment in which nobody else touches it.

  \<^verbatim>\<open>now\<close> and \<^verbatim>\<open>datetime.fromtimestamp(...)\<close> are naive local datetimes, their
  difference is a whole number of microseconds, and \<^verbatim>\<open>total_seconds() > 86400\<close> holds
  exactly when that number exceeds 86400000000 (the division by \<^verbatim>\<open>10**6\<close> is rounded
  correctly and 86400 is a float).
\<close>

datatype syscall = Isfile | Getmtime | Remove

type_synonym interference = "string \<Rightarrow> syscall \<Rightarrow> directory \<Rightarrow> directory"

definition quiet :: interference where
  "quiet f c d = d"

text \<open>
  One iteration of the loop body on one file name: the directory and the counter after
  it, or the exception that leaves the loop, with the directory as it is then.
\<close>

definition file_age :: "ext \<Rightarrow> int \<Rightarrow> real \<Rightarrow> exn + int" where
  "file_age E now m =
     (case fromtimestamp E m of
        Inl e \<Rightarrow> Inl e
      | Inr t \<Rightarrow> Inr (now - t))"

definition cleanup_entry ::
  "interference \<Rightarrow> ext \<Rightarrow> int \<Rightarrow> string \<Rightarrow> directory \<times> nat \<Rightarrow> (exn \<times> directory) + (directory \<times> nat)"
where
  "cleanup_entry env E now fname st =
     (let d1 = env fname Isfile (fst st) in
      if os_path_isfile d1 fname then
        (let d2 = env fname Getmtime d1 in
         case os_path_getmtime d2 fname of
           Inl e \<Rightarrow> Inl (e, d2)
         | Inr m \<Rightarrow>
             (case file_age E now m of
                Inl e \<Rightarrow> Inl (e, d2)
              | Inr age \<Rightarrow>
                  if age > 86400000000 then
                    (let d3 = env fname Remove d2 in
                     case os_remove d3 fname of
                       Inl e \<Rightarrow> Inl (e, d3)
                     | Inr d4 \<Rightarrow> Inr (d4, snd st + 1))
                  else Inr (d2, snd st)))
      else Inr (d1, snd st))"

fun cleanup_loop ::
  "interference \<Rightarrow> ext \<Rightarrow> int \<Rightarrow> string list \<Rightarrow> directory \<times> nat \<Rightarrow> (exn \<times> directory) + (directory \<times> nat)"
where
  "cleanup_loop env E now [] st = Inr st"
| "cleanup_loop env E now (fname # rest) st =
     (case cleanup_entry env E now fname st of
        Inl e \<Rightarrow> Inl e
      | Inr st' \<Rightarrow> cleanup_loop env E now rest st')"

record cleanup_body =
  success :: bool
  deleted :: nat

text \<open>
  The handler reads the clock once, takes the listing and runs the loop. The \<^verbatim>\<open>message\<close> field of
  the body repeats \<^verbatim>\<open>deleted\<close> in a sentence and is left out.
\<close>

definition cleanup_old_images ::
  "interference \<Rightarrow> ext \<Rightarrow> world \<Rightarrow> world \<times> cleanup_body response"
where
  "cleanup_old_images env E w =
     (case cleanup_loop env E (local_now w) (os_listdir (image_dir w)) (image_dir w, 0) of
        Inl (e, d') \<Rightarrow> (w\<lparr>image_dir := d'\<rparr>, Err500 e)
      | Inr (d', n) \<Rightarrow> (w\<lparr>image_dir := d'\<rparr>, Ok200 \<lparr>success = True, deleted = n\<rparr>))"

section \<open>Histogram\<close>

text \<open>
  \<^verbatim>\<open>
  values = data.get('data', [])
  bins = data.get('bins', 20)
  if not values:
      return jsonify({'error': 'No data provided'}), 400
  fig, ax = plt.subplots(figsize=(10, 6))
  ax.hist(values, bins=bins, ...)
  mean_val = np.mean(values); median_val = np.median(values); std_val = np.std(values)
  stats_text = f'Mean: {mean_val:.2f}\nMedian: {median_val:.2f}\nStd Dev: {std_val:.2f}'
  ...
  image_data = save_figure(fig, 'histogram')
  return jsonify(image_data)
  except Exception as e: return jsonify({'error': str(e)}), 500
  \<close>
  A request is the decoded JSON object; \<open>None\<close> is a key that is not there. The keys
  \<^verbatim>\<open>field\<close>, \<^verbatim>\<open>title\<close> and \<^verbatim>\<open>xlabel\<close> only label the figure and are left out,
  as are the titles and labels of the other requests.
\<close>

record histogram_request =
  h_data :: "real list option"
  h_bins :: "int option"

definition histogram_figure :: "ext \<Rightarrow> real list \<Rightarrow> int \<Rightarrow> figure" where
  "histogram_figure E vals bins =
     Histogram vals bins (np_mean E (map Some vals)) (np_median E (map Some vals))
       (np_std E (map Some vals))"

definition generate_histogram :: "ext \<Rightarrow> world \<Rightarrow> histogram_request \<Rightarrow> world \<times> descriptor response" where
  "generate_histogram E w req =
     (let vals = (case h_data req of None \<Rightarrow> [] | Some v \<Rightarrow> v);
          bins = (case h_bins req of None \<Rightarrow> 20 | Some b \<Rightarrow> b) in
      if vals = [] then (w, Err400 ''No data provided'')
      else
        (case save_figure E w (histogram_figure E vals bins) ''histogram'' of
           Inl e \<Rightarrow> (w, Err500 e)
         | Inr (w', d) \<Rightarrow> (w', Ok200 d)))"

section \<open>Scatter plot\<close>

text \<open>
  \<^verbatim>\<open>
  x_data = data.get('x_data', []); y_data = data.get('y_data', [])
  classes = data.get('classes', None)
  if not x_data or not y_data:
      return jsonify({'error': 'x_data and y_data required'}), 400
  fig, ax = plt.subplots(figsize=(10, 6))
  if classes:
      df = pd.DataFrame({'x': x_data, 'y': y_data, 'class': classes})
      for class_val in df['class'].unique():
          class_data = df[df['class'] == class_val]
          color = '#10b981' if class_val == 1 else '#ef4444'
          label = 'Return Donor' if class_val == 1 else 'Non-Return Donor'
          ax.scatter(class_data['x'], class_data['y'], ..., c=color, label=label, ...)
      ax.legend()
  else:
      ax.scatter(x_data, y_data, alpha=0.6, s=50, c='#3b82f6', edgecolors='white')
  \<close>
  \<^verbatim>\<open>pd.DataFrame\<close> raises \<^verbatim>\<open>ValueError\<close> when the three arrays differ in length;
  \<^verbatim>\<open>unique()\<close> lists the values in the order of their first appearance.
\<close>

record scatter_request =
  x_data :: "real list option"
  y_data :: "real list option"
  classes :: "real list option"

fun unique :: "'a list \<Rightarrow> 'a list" where
  "unique [] = []"
| "unique (x # xs) = x # unique (filter (\<lambda>y. y \<noteq> x) xs)"

definition class_series :: "(real \<times> real \<times> real) list \<Rightarrow> real \<Rightarrow> series" where
  "class_series df class_val =
     (let class_data = filter (\<lambda>r. snd (snd r) = class_val) df in
      \<lparr>sx = map (\<lambda>r. Some (fst r)) class_data,
       sy = map (\<lambda>r. Some (fst (snd r))) class_data,
       s_color = (if class_val = 1 then ''#10b981'' else ''#ef4444''),
       s_label = Some (if class_val = 1 then ''Return Donor'' else ''Non-Return Donor'')\<rparr>)"

definition scatter_figure :: "real list \<Rightarrow> real list \<Rightarrow> real list option \<Rightarrow> exn + figure" where
  "scatter_figure xs ys cls =
     (case cls of
        None \<Rightarrow>
          Inr (Scatter [\<lparr>sx = map Some xs, sy = map Some ys, s_color = ''#3b82f6'', s_label = None\<rparr>] False)
      | Some cs \<Rightarrow>
          if cs = [] then
            Inr (Scatter [\<lparr>sx = map Some xs, sy = map Some ys, s_color = ''#3b82f6'', s_label = None\<rparr>] False)
          else if length xs = length ys \<and> length cs = length xs then
            (let df = zip xs (zip ys cs) in
             Inr (Scatter (map (class_series df) (unique cs)) True))
          else Inl (ValueError ''All arrays must be of the same length''))"

definition generate_scatter :: "ext \<Rightarrow> world \<Rightarrow> scatter_request \<Rightarrow> world \<times> descriptor response" where
  "generate_scatter E w req =
     (let xs = (case x_data req of None \<Rightarrow> [] | Some v \<Rightarrow> v);
          ys = (case y_data req of None \<Rightarrow> [] | Some v \<Rightarrow> v) in
      if xs = [] \<or> ys = [] then (w, Err400 ''x_data and y_data required'')
      else
        (case scatter_figure xs ys (classes req) of
           Inl e \<Rightarrow> (w, Err500 e)
         | Inr fig \<Rightarrow>
             (case save_figure E w fig ''scatter'' of
                Inl e \<Rightarrow> (w, Err500 e)
              | Inr (w', d) \<Rightarrow> (w', Ok200 d))))"

section \<open>Multi-histogram\<close>

text \<open>
  \<^verbatim>\<open>
  datasets = data.get('datasets', [])
  if len(datasets) < 2:
      return jsonify({'error': 'At least 2 datasets required'}), 400
  n_plots = len(datasets)
  rows = (n_plots + 1) // 2
  cols = 2 if n_plots > 1 else 1
  fig, axes = plt.subplots(rows, cols, figsize=(14, 5 * rows))
  axes = axes.flatten() if n_plots > 1 else [axes]
  for idx, dataset in enumerate(datasets):
      values = dataset.get('data', [])
      color = dataset.get('color', '#3b82f6')
      ax = axes[idx]
      ax.hist(values, bins=20, edgecolor='black', color=color, alpha=0.7)
      mean_val = np.mean(values)
      ax.axvline(mean_val, color='red', linestyle='--', linewidth=2, label=...)
  for idx in range(len(datasets), len(axes)):
      axes[idx].set_visible(False)
  \<close>
\<close>

record dataset =
  d_data :: "real list option"
  d_color :: "string option"

record multi_histogram_request =
  datasets :: "dataset list option"

definition dataset_axes :: "ext \<Rightarrow> dataset \<Rightarrow> axes" where
  "dataset_axes E ds =
     (let vals = (case d_data ds of None \<Rightarrow> [] | Some v \<Rightarrow> v);
          color = (case d_color ds of None \<Rightarrow> ''#3b82f6'' | Some c \<Rightarrow> c) in
      HistAxes (map Some vals) 20 color (np_mean E (map Some vals)))"

text \<open>The first loop; \<^verbatim>\<open>axes[idx]\<close> raises \<^verbatim>\<open>IndexError\<close> out of range.\<close>

fun plot_datasets :: "ext \<Rightarrow> nat \<Rightarrow> dataset list \<Rightarrow> axes list \<Rightarrow> exn + axes list" where
  "plot_datasets E idx [] axs = Inr axs"
| "plot_datasets E idx (ds # rest) axs =
     (if idx < length axs then plot_datasets E (Suc idx) rest (axs[idx := dataset_axes E ds])
      else Inl IndexError)"

text \<open>The second loop.\<close>

definition hide_unused :: "nat \<Rightarrow> axes list \<Rightarrow> axes list" where
  "hide_unused n axs = fold (\<lambda>idx a. a[idx := Hidden]) [n ..< length axs] axs"

definition multi_histogram_figure :: "ext \<Rightarrow> dataset list \<Rightarrow> exn + figure" where
  "multi_histogram_figure E dss =
     (let n_plots = length dss;
          rows = (n_plots + 1) div 2;
          cols = (if n_plots > 1 then 2 else 1);
          axs = replicate (rows * cols) Blank in
      case plot_datasets E 0 dss axs of
        Inl e \<Rightarrow> Inl e
      | Inr axs' \<Rightarrow> Inr (Subplots rows cols (hide_unused (length dss) axs')))"

definition generate_multi_histogram ::
  "ext \<Rightarrow> world \<Rightarrow> multi_histogram_request \<Rightarrow> world \<times> descriptor response"
where
  "generate_multi_histogram E w req =
     (let dss = (case datasets req of None \<Rightarrow> [] | Some v \<Rightarrow> v) in
      if length dss < 2 then (w, Err400 ''At least 2 datasets required'')
      else
        (case multi_histogram_figure E dss of
           Inl e \<Rightarrow> (w, Err500 e)
         | Inr fig \<Rightarrow>
             (case save_figure E w fig ''multi_histogram'' of
                Inl e \<Rightarrow> (w, Err500 e)
              | Inr (w', d) \<Rightarrow> (w', Ok200 d))))"

section \<open>Bar chart\<close>

text \<open>
  \<^verbatim>\<open>
  categories = data.get('categories', []); values = data.get('values', [])
  if not categories or not values:
      return jsonify({'error': 'categories and values required'}), 400
  colors = ['#10b981', '#ef4444', '#3b82f6', '#f59e0b']
  bars = ax.bar(categories, values, color=colors[:len(categories)], ...)
  for bar in bars:
      height = bar.get_height()
      ax.text(..., f'{int(height)}', ...)
  \<close>
\<close>

record bar_chart_request =
  categories :: "string list option"
  bar_values :: "real list option"

definition generate_bar_chart :: "ext \<Rightarrow> world \<Rightarrow> bar_chart_request \<Rightarrow> world \<times> descriptor response" where
  "generate_bar_chart E w req =
     (let cats = (case categories req of None \<Rightarrow> [] | Some v \<Rightarrow> v);
          vals = (case bar_values req of None \<Rightarrow> [] | Some v \<Rightarrow> v);
          colors = [''#10b981'', ''#ef4444'', ''#3b82f6'', ''#f59e0b''] in
      if cats = [] \<or> vals = [] then (w, Err400 ''categories and values required'')
      else
        (case save_figure E w (BarChart cats vals (take (length cats) colors) HeightLabels) ''bar_chart'' of
           Inl e \<Rightarrow> (w, Err500 e)
         | Inr (w', d) \<Rightarrow> (w', Ok200 d)))"

section \<open>The blood-data report\<close>

text \<open>
  A record is a JSON object, a map from field names to numbers; \<^verbatim>\<open>pd.DataFrame(records)\<close>
  has a column for every key that occurs in some record, with NaN where a record lacks
  the key.
\<close>

type_synonym blood_record = "string \<rightharpoonup> real"

record blood_request =
  records :: "blood_record list option"

record blood_body =
  b_success :: bool
  count :: nat
  visualizations :: "descriptor list"

definition has_column :: "blood_record list \<Rightarrow> string \<Rightarrow> bool" where
  "has_column df field = list_ex (\<lambda>r. r field \<noteq> None) df"

definition column :: "blood_record list \<Rightarrow> string \<Rightarrow> npfloat list" where
  "column df field = map (\<lambda>r. r field) df"

text \<open>
  \<^verbatim>\<open>
  fig1, axes = plt.subplots(2, 2, figsize=(14, 10)); axes = axes.flatten()
  fields = ['recency', 'frequency', 'monetary', 'time']
  colors = ['#3b82f6', '#10b981', '#f59e0b', '#a855f7']
  for idx, field in enumerate(fields):
      if field in df.columns:
          ax = axes[idx]
          values = df[field].values
          ax.hist(values, bins=20, edgecolor='black', color=colors[idx], alpha=0.7)
          mean_val = np.mean(values)
          ax.axvline(mean_val, ...)
  viz1 = save_figure(fig1, 'blood_histograms')
  visualizations.append(viz1)
  \<close>
\<close>

definition blood_histograms :: "ext \<Rightarrow> blood_record list \<Rightarrow> figure" where
  "blood_histograms E df =
     (let fields = [''recency'', ''frequency'', ''monetary'', ''time''];
          colors = [''#3b82f6'', ''#10b981'', ''#f59e0b'', ''#a855f7''] in
      Subplots 2 2
        (map (\<lambda>(field, color).
                if has_column df field
                then HistAxes (column df field) 20 color (np_mean E (column df field))
                else Blank)
             (zip fields colors)))"

text \<open>
  \<^verbatim>\<open>
  for class_val in [0, 1]:
      class_data = df[df['class'] == class_val]
      color = '#10b981' if class_val == 1 else '#ef4444'
      label = 'Return Donor' if class_val == 1 else 'Non-Return Donor'
      ax.scatter(class_data['frequency'], class_data['monetary'], ..., c=color, label=label, ...)
  \<close>
\<close>

definition blood_class_series :: "blood_record list \<Rightarrow> real \<Rightarrow> series" where
  "blood_class_series df class_val =
     (let class_data = filter (\<lambda>r. r ''class'' = Some class_val) df in
      \<lparr>sx = column class_data ''frequency'',
       sy = column class_data ''monetary'',
       s_color = (if class_val = 1 then ''#10b981'' else ''#ef4444''),
       s_label = Some (if class_val = 1 then ''Return Donor'' else ''Non-Return Donor'')\<rparr>)"

definition frequency_vs_monetary :: "blood_record list \<Rightarrow> figure" where
  "frequency_vs_monetary df = Scatter (map (blood_class_series df) [0, 1]) True"

text \<open>
  \<^verbatim>\<open>
  class_counts = df['class'].value_counts().sort_index()
  categories = ['Non-Return Donor', 'Return Donor']
  values = [class_counts.get(0, 0), class_counts.get(1, 0)]
  colors_bar = ['#ef4444', '#10b981']
  bars = ax.bar(categories, values, color=colors_bar, ...)
  total = sum(values)
  for bar, val in zip(bars, values):
      height = bar.get_height()
      percentage = (val / total) * 100
      ax.text(..., f'{int(val)}\n({percentage:.1f}%)', ...)
  \<close>
  \<^verbatim>\<open>class_counts.get(c, 0)\<close> is a NumPy integer when some record has class \<open>c\<close> and
  the Python integer 0 otherwise, so \<^verbatim>\<open>total\<close> is zero only when both values are the
  Python 0, where \<^verbatim>\<open>/\<close> raises \<^verbatim>\<open>ZeroDivisionError\<close>. Otherwise the quotient is
  a float, kept as the pair of its operands.
\<close>

definition class_count :: "blood_record list \<Rightarrow> real \<Rightarrow> nat" where
  "class_count df c = length (filter (\<lambda>r. r ''class'' = Some c) df)"

definition py_truediv :: "nat \<Rightarrow> nat \<Rightarrow> exn + (nat \<times> nat)" where
  "py_truediv a b = (if b = 0 then Inl ZeroDivisionError else Inr (a, b))"

fun percentage_labels :: "nat list \<Rightarrow> nat \<Rightarrow> exn + (nat \<times> nat \<times> nat) list" where
  "percentage_labels [] tot = Inr []"
| "percentage_labels (val # rest) tot =
     (case py_truediv val tot of
        Inl e \<Rightarrow> Inl e
      | Inr q \<Rightarrow>
          (case percentage_labels rest tot of
             Inl e \<Rightarrow> Inl e
           | Inr ls \<Rightarrow> Inr ((val, q) # ls)))"

definition class_distribution :: "blood_record list \<Rightarrow> exn + figure" where
  "class_distribution df =
     (let vals = [class_count df 0, class_count df 1];
          tot = sum_list vals in
      case percentage_labels vals tot of
        Inl e \<Rightarrow> Inl e
      | Inr ls \<Rightarrow>
          Inr (BarChart [''Non-Return Donor'', ''Return Donor''] (map real vals)
                 [''#ef4444'', ''#10b981''] (CountPctLabels ls)))"

text \<open>
  \<^verbatim>\<open>
  ax.scatter(df['recency'], df['frequency'], alpha=0.5, s=40, c='#3b82f6', edgecolors='white')
  \<close>
\<close>

definition recency_vs_frequency :: "blood_record list \<Rightarrow> figure" where
  "recency_vs_frequency df =
     Scatter [\<lparr>sx = column df ''recency'', sy = column df ''frequency'',
               s_color = ''#3b82f6'', s_label = None\<rparr>] False"

text \<open>
  \<^verbatim>\<open>viz = save_figure(fig, prefix); visualizations.append(viz)\<close>, or the exception
  with the state it leaves behind.
\<close>

definition add_panel ::
  "ext \<Rightarrow> figure \<Rightarrow> string \<Rightarrow> world \<times> descriptor list \<Rightarrow> (exn \<times> world) + (world \<times> descriptor list)"
where
  "add_panel E fig prefix st =
     (case save_figure E (fst st) fig prefix of
        Inl e \<Rightarrow> Inl (e, fst st)
      | Inr (w', d) \<Rightarrow> Inr (w', snd st @ [d]))"

definition blood_panels ::
  "ext \<Rightarrow> blood_record list \<Rightarrow> world \<times> descriptor list \<Rightarrow> (exn \<times> world) + (world \<times> descriptor list)"
where
  "blood_panels E df st0 =
     (case add_panel E (blood_histograms E df) ''blood_histograms'' st0 of
        Inl x \<Rightarrow> Inl x
      | Inr st1 \<Rightarrow>
     (case (if has_column df ''frequency'' \<and> has_column df ''monetary'' \<and> has_column df ''class''
            then add_panel E (frequency_vs_monetary df) ''frequency_vs_monetary'' st1
            else Inr st1) of
        Inl x \<Rightarrow> Inl x
      | Inr st2 \<Rightarrow>
     (case (if has_column df ''class''
            then (case class_distribution df of
                    Inl e \<Rightarrow> Inl (e, fst st2)
                  | Inr fig \<Rightarrow> add_panel E fig ''class_distribution'' st2)
            else Inr st2) of
        Inl x \<Rightarrow> Inl x
      | Inr st3 \<Rightarrow>
     (if has_column df ''recency'' \<and> has_column df ''frequency''
      then add_panel E (recency_vs_frequency df) ''recency_vs_frequency'' st3
      else Inr st3))))"

text \<open>
  \<^verbatim>\<open>
  records = request_data.get('data', [])
  if not records:
      return jsonify({'error': 'No data provided'}), 400
  df = pd.DataFrame(records)
  visualizations = []
  ...
  return jsonify({'success': True, 'count': len(visualizations),
                  'visualizations': visualizations})
  except Exception as e: return jsonify({'error': str(e)}), 500
  \<close>
\<close>

definition visualize_blood_data :: "ext \<Rightarrow> world \<Rightarrow> blood_request \<Rightarrow> world \<times> blood_body response" where
  "visualize_blood_data E w req =
     (let df = (case records req of None \<Rightarrow> [] | Some v \<Rightarrow> v) in
      if df = [] then (w, Err400 ''No data provided'')
      else
        (case blood_panels E df (w, []) of
           Inl (e, w') \<Rightarrow> (w', Err500 e)
         | Inr (w', vs) \<Rightarrow>
             (w', Ok200 \<lparr>b_success = True, count = length vs, visualizations = vs\<rparr>)))"

section \<open>Example environments\<close>

text \<open>
  Another sweep removes the file \<open>g\<close> just before this sweep makes the system call
  \<open>sc\<close> on it.
\<close>

definition concurrent_removal :: "string \<Rightarrow> syscall \<Rightarrow> interference" where
  "concurrent_removal g sc f c d = (if f = g \<and> c = sc then AList.delete g d else d)"

text \<open>
  Two runs of \<^verbatim>\<open>uuid.uuid4().hex\<close>: in the first the two UUIDs differ but share their
  first eight digits, in the second they differ there. The stub backend draws every
  figure and returns the same bytes; its statistics are NaN, which no property below
  depends on.
\<close>

definition colliding_uuids :: "nat \<Rightarrow> string" where
  "colliding_uuids k =
     (if k = 0 then ''0123456789ab4def8123456789abcdef'' else ''01234567ffff4fff8fffffffffffffff'')"

definition distinct_uuids :: "nat \<Rightarrow> string" where
  "distinct_uuids k =
     (if k = 0 then ''0123456789ab4def8123456789abcdef'' else ''fedcba9876544321a123456789abcdef'')"

text \<open>
  A zone without offset: the local datetime of a timestamp is the timestamp, in
  microseconds and rounded half to even.
\<close>

definition round_half_even :: "real \<Rightarrow> int" where
  "round_half_even x =
     (let f = \<lfloor>x\<rfloor>; r = x - of_int f in
      if r < 1 / 2 then f else if r > 1 / 2 then f + 1 else if even f then f else f + 1)"

definition utc_fromtimestamp :: "real \<Rightarrow> exn + int" where
  "utc_fromtimestamp t = Inr (round_half_even (t * 1000000))"

definition stub_backend :: "(nat \<Rightarrow> string) \<Rightarrow> ext" where
  "stub_backend u =
     \<lparr>draw = (\<lambda>fig. Inr ''PNG''), b64encode = (\<lambda>b. b), uuid4_hex = u,
      np_mean = (\<lambda>a. NaN), np_median = (\<lambda>a. NaN), np_std = (\<lambda>a. NaN),
      fromtimestamp = utc_fromtimestamp\<rparr>"

section \<open>Reference notions for the properties\<close>

text \<open>
  A file has expired at a reading \<open>now\<close> of \<^verbatim>\<open>datetime.now()\<close> when its age, \<open>now\<close>
  minus the local datetime of its modification time, exceeds 24 hours.
\<close>

definition expired :: "ext \<Rightarrow> int \<Rightarrow> stored_file \<Rightarrow> bool" where
  "expired E now s =
     (case fromtimestamp E (mtime s) of
        Inl e \<Rightarrow> False
      | Inr t \<Rightarrow> now - t > 24 * 3600 * 1000000)"



section \<open>The directory and the sweep without interference\<close>

lemma length_filter_delete:
  "distinct (map fst d) \<Longrightarrow> map_of d f = Some s \<Longrightarrow>
   length (filter Q d) = (if Q (f, s) then 1 else 0) + length (filter Q (AList.delete f d))"
proof (induction d)
  case Nil then show ?case by simp
next
  case (Cons p d)
  show ?case
  proof (cases "fst p = f")
    case True
    with Cons.prems have ps: "p = (f, s)" by (cases p) auto
    from Cons.prems True have "f \<notin> fst ` set d" by auto
    then have "AList.delete f d = d" by (simp add: AList.delete_id)
    with ps show ?thesis by simp
  next
    case False
    with Cons show ?thesis by (cases p) auto
  qed
qed

lemma map_of_key_unique:
  assumes dd: "distinct (map fst d)" and m: "map_of d f = Some s"
    and pin: "p \<in> set d" and k: "fst p = f"
  shows "p = (f, s)"
proof -
  have pp: "p = (f, snd p)" using k by (simp add: prod_eq_iff)
  with pin have "(f, snd p) \<in> set d" by simp
  with dd have "map_of d f = Some (snd p)" by (simp only: map_of_eq_Some_iff)
  with m have "snd p = s" by simp
  with pp show ?thesis by simp
qed

lemma expired_iff:
  "fromtimestamp E (mtime s) = Inr t \<Longrightarrow> expired E now s = (now - t > 86400000000)"
  by (simp add: expired_def)


lemma cleanup_entry_quiet:
  "cleanup_entry quiet E now f (d, n) =
     (case map_of d f of
        None \<Rightarrow> Inr (d, n)
      | Some s \<Rightarrow>
          (case fromtimestamp E (mtime s) of
             Inl e \<Rightarrow> Inl (e, d)
           | Inr t \<Rightarrow>
               if now - t > 86400000000 then Inr (AList.delete f d, n + 1) else Inr (d, n)))"
  by (simp add: cleanup_entry_def quiet_def os_path_isfile_def os_path_getmtime_def os_remove_def
      file_age_def split: option.splits sum.splits)

lemma cleanup_loop_quiet:
  "distinct (map fst d) \<Longrightarrow> distinct xs \<Longrightarrow>
   \<forall>p \<in> set d. \<exists>t. fromtimestamp E (mtime (snd p)) = Inr t \<Longrightarrow>
   cleanup_loop quiet E now xs (d, n) =
     Inr ([p \<leftarrow> d. \<not> (fst p \<in> set xs \<and> expired E now (snd p))],
          n + length [p \<leftarrow> d. fst p \<in> set xs \<and> expired E now (snd p)])"
proof (induction xs arbitrary: d n)
  case Nil
  then show ?case by simp
next
  case (Cons f rest)
  let ?old = "\<lambda>p :: string \<times> stored_file. expired E now (snd p)"
  from Cons.prems have fr: "f \<notin> set rest" and dr: "distinct rest" by auto
  note conv = Cons.prems(3)
  show ?case
  proof (cases "map_of d f")
    case None
    then have nk: "\<And>p. p \<in> set d \<Longrightarrow> fst p \<noteq> f"
      by (metis map_of_eq_None_iff image_eqI)
    have e1: "[p \<leftarrow> d. \<not> (fst p \<in> set (f # rest) \<and> ?old p)] = [p \<leftarrow> d. \<not> (fst p \<in> set rest \<and> ?old p)]"
      by (rule filter_cong) (auto dest: nk)
    have e2: "[p \<leftarrow> d. (fst p \<in> set (f # rest) \<and> ?old p)] = [p \<leftarrow> d. (fst p \<in> set rest \<and> ?old p)]"
      by (rule filter_cong) (auto dest: nk)
    show ?thesis
      using None Cons.IH[OF Cons.prems(1) dr conv, of n] e1 e2
      by (simp add: cleanup_entry_quiet del: set_simps)
  next
    case (Some s)
    have uq: "\<And>p. p \<in> set d \<Longrightarrow> fst p = f \<Longrightarrow> p = (f, s)"
      using map_of_key_unique[OF Cons.prems(1) Some] by blast
    from Some have "(f, s) \<in> set d" by (rule map_of_SomeD)
    with conv obtain t where t: "fromtimestamp E (mtime s) = Inr t" by fastforce
    show ?thesis
    proof (cases "now - t > 86400000000")
      case False
      then have ns: "\<not> expired E now s" using t by (simp add: expired_iff)
      have e1: "[p \<leftarrow> d. \<not> (fst p \<in> set (f # rest) \<and> ?old p)] = [p \<leftarrow> d. \<not> (fst p \<in> set rest \<and> ?old p)]"
        by (rule filter_cong) (use ns uq in auto)
      have e2: "[p \<leftarrow> d. (fst p \<in> set (f # rest) \<and> ?old p)] = [p \<leftarrow> d. (fst p \<in> set rest \<and> ?old p)]"
        by (rule filter_cong) (use ns uq in auto)
      show ?thesis
        using Some t False Cons.IH[OF Cons.prems(1) dr conv, of n] e1 e2
        by (simp add: cleanup_entry_quiet del: set_simps)
    next
      case True
      then have os: "expired E now s" using t by (simp add: expired_iff)
      have dd: "distinct (map fst (AList.delete f d))"
        using Cons.prems(1) by (rule AList.distinct_delete)
      have conv': "\<forall>p \<in> set (AList.delete f d). \<exists>t. fromtimestamp E (mtime (snd p)) = Inr t"
        using conv by (auto simp: AList.delete_eq)
      have e1: "[p \<leftarrow> AList.delete f d. \<not> (fst p \<in> set rest \<and> ?old p)]
                = [p \<leftarrow> d. \<not> (fst p \<in> set (f # rest) \<and> ?old p)]"
        unfolding AList.delete_eq filter_filter
        by (rule filter_cong) (use os uq in auto)
      have e2: "[p \<leftarrow> AList.delete f d. (fst p \<in> set rest \<and> ?old p)]
                = [p \<leftarrow> AList.delete f d. (fst p \<in> set (f # rest) \<and> ?old p)]"
        unfolding AList.delete_eq filter_filter
        by (rule filter_cong) auto
      have e3: "length [p \<leftarrow> d. (fst p \<in> set (f # rest) \<and> ?old p)]
                = 1 + length [p \<leftarrow> AList.delete f d. (fst p \<in> set (f # rest) \<and> ?old p)]"
        using length_filter_delete[OF Cons.prems(1) Some, of "\<lambda>p. fst p \<in> set (f # rest) \<and> ?old p"] os
        by simp
      show ?thesis
        using Some t True Cons.IH[OF dd dr conv', of "n + 1"] e1 e2 e3
        by (simp add: cleanup_entry_quiet del: set_simps)
    qed
  qed
qed

lemma cleanup_quiet:
  assumes "distinct (map fst (image_dir w))"
    and "\<forall>p \<in> set (image_dir w). \<exists>t. fromtimestamp E (mtime (snd p)) = Inr t"
  shows "cleanup_old_images quiet E w =
    (w\<lparr>image_dir := [p \<leftarrow> image_dir w. \<not> expired E (local_now w) (snd p)]\<rparr>,
     Ok200 \<lparr>success = True, deleted = length [p \<leftarrow> image_dir w. expired E (local_now w) (snd p)]\<rparr>)"
proof -
  have e1: "[p \<leftarrow> image_dir w. \<not> (fst p \<in> set (map fst (image_dir w)) \<and> expired E (local_now w) (snd p))]
          = [p \<leftarrow> image_dir w. \<not> expired E (local_now w) (snd p)]"
    by (rule filter_cong) auto
  have e2: "[p \<leftarrow> image_dir w. (fst p \<in> set (map fst (image_dir w)) \<and> expired E (local_now w) (snd p))]
          = [p \<leftarrow> image_dir w. expired E (local_now w) (snd p)]"
    by (rule filter_cong) auto
  show ?thesis
    unfolding cleanup_old_images_def os_listdir_def
    using cleanup_loop_quiet[OF assms(1) assms(1) assms(2), of "local_now w" 0] e1 e2
    by simp
qed

lemma cleanup_loop_append:
  "cleanup_loop env E now (xs @ ys) st =
     (case cleanup_loop env E now xs st of Inl e \<Rightarrow> Inl e | Inr st' \<Rightarrow> cleanup_loop env E now ys st')"
  by (induction xs arbitrary: st) (auto split: sum.splits)



lemma save_figure_world:
  "save_figure E w fig prefix = Inr (w', d) \<Longrightarrow>
     \<exists>png. draw E fig = Inr png \<and>
       d = \<lparr>filename = prefix @ ''_'' @ take 8 (uuid4_hex E (uuid_calls w)) @ ''.png'',
            url = ''/api/images/'' @ prefix @ ''_'' @ take 8 (uuid4_hex E (uuid_calls w)) @ ''.png'',
            base64 = ''data:image/png;base64,'' @ b64encode E png,
            timestamp = local_now w\<rparr> \<and>
       w' = w\<lparr>image_dir := AList.update (filename d) \<lparr>content = png, mtime = clock w\<rparr> (image_dir w),
              uuid_calls := Suc (uuid_calls w)\<rparr>"
  by (auto simp: save_figure_def write_file_def Let_def split: sum.splits)

lemma update_fresh:
  "k \<notin> fst ` set al \<Longrightarrow> AList.update k v al = al @ [(k, v)]"
  by (induction al) auto

lemma map_of_filter_drop:
  "(\<And>p. p \<in> set d \<Longrightarrow> fst p = k \<Longrightarrow> \<not> P p) \<Longrightarrow> map_of (filter P d) k = None"
  by (induction d) (auto split: if_splits)

lemma filename_eq_iff:
  assumes "length t1 = length t2"
  shows "(p1 @ ''_'' @ t1 @ ''.png'' = p2 @ ''_'' @ t2 @ ''.png'') \<longleftrightarrow> (p1 = p2 \<and> t1 = t2)"
proof -
  have "length (''_'' @ t1 @ ''.png'') = length (''_'' @ t2 @ ''.png'')"
    using assms by simp
  then have "(p1 @ (''_'' @ t1 @ ''.png'') = p2 @ (''_'' @ t2 @ ''.png''))
             \<longleftrightarrow> (p1 = p2 \<and> ''_'' @ t1 @ ''.png'' = ''_'' @ t2 @ ''.png'')"
    by (rule append_eq_append_conv[OF disjI2])
  then show ?thesis by simp
qed

lemma utc_fromtimestamp_int:
  "utc_fromtimestamp (of_int k) = Inr (k * 1000000)"
proof -
  have e: "(of_int k :: real) * 1000000 = of_int (k * 1000000)" by simp
  show ?thesis
    unfolding utc_fromtimestamp_def round_half_even_def e Let_def floor_of_int by simp
qed

section \<open>Expiry\<close>




section \<open>Retrieval and repeated deletion\<close>

text \<open>
  Claim C9, as stated, fails: the deletion step of the sweep raises
  \<^verbatim>\<open>FileNotFoundError\<close> when another sweep has removed the file between this
  sweep's \<^verbatim>\<open>getmtime\<close> and its \<^verbatim>\<open>os.remove\<close>, as \<^verbatim>\<open>os.remove\<close> does on
  every name that is not there; and retrieving \<^verbatim>\<open>..\<close>, which was never created as an
  image, answers 500.
\<close>

theorem absent_id_counterexample:
  "cleanup_entry (concurrent_removal ''a.png'' Remove) (stub_backend distinct_uuids) 90000000000
       ''a.png'' ([(''a.png'', \<lparr>content = ''A'', mtime = 0\<rparr>)], 0)
     = Inl (FileNotFoundError ''a.png'', [])
   \<and> os_remove [] ''a.png'' = Inl (FileNotFoundError ''a.png'')
   \<and> serve_image \<lparr>image_dir = [], clock = 90000, local_now = 90000000000, uuid_calls = 0\<rparr> ''..''
     = Err500 (IsADirectoryError ''..'')"
  by (simp add: cleanup_entry_def concurrent_removal_def os_path_isfile_def os_path_getmtime_def
      os_remove_def file_age_def stub_backend_def utc_fromtimestamp_def round_half_even_def
      serve_image_def os_path_exists_def send_file_def)

text \<open>
  Claim C9, amended. Retrieving a file name other than \<^verbatim>\<open>.\<close> and \<^verbatim>\<open>..\<close> that is
  not in the directory, because it was never created, was removed, or was deleted by a
  sweep as expired, answers 404. The service deletes only inside the sweep, behind the
  \<^verbatim>\<open>isfile\<close> test: on a name that is not there at that test the step does nothing,
  whatever others do; without interference the step does not raise when the modification
  time is convertible, and repeating it changes nothing more. The step raises
  \<^verbatim>\<open>FileNotFoundError\<close> only for a file that was there at the \<^verbatim>\<open>isfile\<close> test
  and is gone afterwards, or when the conversion of its modification time raises it.
\<close>

theorem absent_image_not_found_delete_guarded:
  "(f \<noteq> ''.'' \<and> f \<noteq> ''..'' \<and> map_of (image_dir w) f = None \<longrightarrow>
      serve_image w f = Err404 ''Image not found'')
   \<and> (f \<noteq> ''.'' \<and> f \<noteq> ''..'' \<longrightarrow>
      (\<forall>d'. os_remove (image_dir w) f = Inr d' \<longrightarrow>
          serve_image (w\<lparr>image_dir := d'\<rparr>) f = Err404 ''Image not found''))
   \<and> (f \<noteq> ''.'' \<and> f \<noteq> ''..'' \<and> distinct (map fst (image_dir w))
        \<and> (\<forall>p \<in> set (image_dir w). \<exists>t. fromtimestamp E (mtime (snd p)) = Inr t) \<longrightarrow>
        (\<forall>s. map_of (image_dir w) f = Some s \<and> expired E (local_now w) s \<longrightarrow>
           serve_image (fst (cleanup_old_images quiet E w)) f = Err404 ''Image not found''))
   \<and> (\<not> os_path_isfile (env f Isfile (fst st)) f \<longrightarrow>
        cleanup_entry env E now f st = Inr (env f Isfile (fst st), snd st))
   \<and> (\<forall>st'. cleanup_entry quiet E now f st = Inr st' \<longrightarrow> cleanup_entry quiet E now f st' = Inr st')
   \<and> ((\<forall>s. map_of (fst st) f = Some s \<longrightarrow> (\<exists>t. fromtimestamp E (mtime s) = Inr t)) \<longrightarrow>
        (\<exists>st'. cleanup_entry quiet E now f st = Inr st'))
   \<and> (\<forall>d'. cleanup_entry env E now f st = Inl (FileNotFoundError f, d') \<longrightarrow>
        os_path_isfile (env f Isfile (fst st)) f
        \<and> (\<not> os_path_isfile d' f
            \<or> (\<exists>m. os_path_getmtime d' f = Inr m \<and> fromtimestamp E m = Inl (FileNotFoundError f))))"
proof (intro conjI allI impI)
  show "serve_image w f = Err404 ''Image not found''"
    if "f \<noteq> ''.'' \<and> f \<noteq> ''..'' \<and> map_of (image_dir w) f = None"
    using that by (simp add: serve_image_def os_path_exists_def)
  show "serve_image (w\<lparr>image_dir := d'\<rparr>) f = Err404 ''Image not found''"
    if nd: "f \<noteq> ''.'' \<and> f \<noteq> ''..''" and rm: "os_remove (image_dir w) f = Inr d'" for d'
  proof -
    from rm have "d' = AList.delete f (image_dir w)"
      by (auto simp: os_remove_def split: option.splits)
    then have "map_of d' f = None"
      by (simp add: AList.delete_conv')
    with nd show ?thesis by (simp add: serve_image_def os_path_exists_def)
  qed
  show "serve_image (fst (cleanup_old_images quiet E w)) f = Err404 ''Image not found''"
    if h: "f \<noteq> ''.'' \<and> f \<noteq> ''..'' \<and> distinct (map fst (image_dir w))
        \<and> (\<forall>p \<in> set (image_dir w). \<exists>t. fromtimestamp E (mtime (snd p)) = Inr t)"
      and ex: "map_of (image_dir w) f = Some s \<and> expired E (local_now w) s" for s
  proof -
    from h have dd: "distinct (map fst (image_dir w))"
      and conv: "\<forall>p \<in> set (image_dir w). \<exists>t. fromtimestamp E (mtime (snd p)) = Inr t" by simp_all
    have "map_of [p \<leftarrow> image_dir w. \<not> expired E (local_now w) (snd p)] f = None"
    proof (rule map_of_filter_drop)
      fix p assume "p \<in> set (image_dir w)" "fst p = f"
      with dd ex have "p = (f, s)" by (auto intro: map_of_key_unique)
      with ex show "\<not> \<not> expired E (local_now w) (snd p)" by simp
    qed
    with h show ?thesis
      by (simp add: cleanup_quiet[OF dd conv] serve_image_def os_path_exists_def)
  qed
  show "cleanup_entry env E now f st = Inr (env f Isfile (fst st), snd st)"
    if "\<not> os_path_isfile (env f Isfile (fst st)) f"
    using that by (simp add: cleanup_entry_def)
  show "cleanup_entry quiet E now f st' = Inr st'" if "cleanup_entry quiet E now f st = Inr st'" for st'
    using that
    by (cases st) (auto simp: cleanup_entry_quiet AList.delete_conv' split: option.splits sum.splits if_splits)
  show "\<exists>st'. cleanup_entry quiet E now f st = Inr st'"
    if "\<forall>s. map_of (fst st) f = Some s \<longrightarrow> (\<exists>t. fromtimestamp E (mtime s) = Inr t)"
    using that by (cases st) (auto simp: cleanup_entry_quiet split: option.splits sum.splits)
  show "os_path_isfile (env f Isfile (fst st)) f"
    if "cleanup_entry env E now f st = Inl (FileNotFoundError f, d')" for d'
    using that by (auto simp: cleanup_entry_def Let_def split: if_splits)
  show "\<not> os_path_isfile d' f
            \<or> (\<exists>m. os_path_getmtime d' f = Inr m \<and> fromtimestamp E m = Inl (FileNotFoundError f))"
    if "cleanup_entry env E now f st = Inl (FileNotFoundError f, d')" for d'
    using that
    by (auto simp: cleanup_entry_def Let_def os_path_isfile_def os_path_getmtime_def os_remove_def
        file_age_def split: if_splits option.splits sum.splits)
qed

theorem absent_image_not_found_delete_guarded_witness:
  "serve_image \<lparr>image_dir = [(''a.png'', \<lparr>content = ''A'', mtime = 0\<rparr>)],
                 clock = 90000, local_now = 90000000000, uuid_calls = 1\<rparr>
      ''zzz.png'' = Err404 ''Image not found''
   \<and> serve_image \<lparr>image_dir = [(''a.png'', \<lparr>content = ''A'', mtime = 0\<rparr>)],
                 clock = 90000, local_now = 90000000000, uuid_calls = 1\<rparr>
      ''a.png'' = Ok200 ''A''
   \<and> serve_image
        (fst (cleanup_old_images quiet (stub_backend distinct_uuids)
           \<lparr>image_dir = [(''a.png'', \<lparr>content = ''A'', mtime = 0\<rparr>)],
            clock = 90000, local_now = 90000000000, uuid_calls = 1\<rparr>))
        ''a.png'' = Err404 ''Image not found''
   \<and> cleanup_entry quiet (stub_backend distinct_uuids) 90000000000 ''a.png'' ([], 1) = Inr ([], 1)"
proof -
  let ?E = "stub_backend distinct_uuids"
  let ?W = "\<lparr>image_dir = [(''a.png'', \<lparr>content = ''A'', mtime = 0\<rparr>)],
             clock = 90000, local_now = 90000000000, uuid_calls = 1\<rparr>"
  have ft: "fromtimestamp ?E = utc_fromtimestamp" by (simp add: stub_backend_def)
  have t0: "utc_fromtimestamp 0 = Inr 0" using utc_fromtimestamp_int[of 0] by simp
  note T1 = absent_image_not_found_delete_guarded[of "''zzz.png''" ?W ?E quiet "([], 1)" 90000000000]
  note T2 = absent_image_not_found_delete_guarded[of "''a.png''" ?W ?E quiet "([], 1)" 90000000000]
  have absent: "''zzz.png'' \<noteq> ''.'' \<and> ''zzz.png'' \<noteq> ''..'' \<and> map_of (image_dir ?W) ''zzz.png'' = None"
    by simp
  with T1 have a: "serve_image ?W ''zzz.png'' = Err404 ''Image not found''" by blast
  have b: "serve_image ?W ''a.png'' = Ok200 ''A''"
    by (simp add: serve_image_def os_path_exists_def send_file_def)
  have pre: "''a.png'' \<noteq> ''.'' \<and> ''a.png'' \<noteq> ''..'' \<and> distinct (map fst (image_dir ?W))
        \<and> (\<forall>p \<in> set (image_dir ?W). \<exists>t. fromtimestamp ?E (mtime (snd p)) = Inr t)"
    by (simp add: ft t0)
  have old: "map_of (image_dir ?W) ''a.png'' = Some \<lparr>content = ''A'', mtime = 0\<rparr>
             \<and> expired ?E (local_now ?W) \<lparr>content = ''A'', mtime = 0\<rparr>"
    by (simp add: expired_def ft t0)
  from T2 pre old have c: "serve_image (fst (cleanup_old_images quiet ?E ?W)) ''a.png'' = Err404 ''Image not found''"
    by blast
  have gone: "\<not> os_path_isfile (quiet ''a.png'' Isfile (fst (([], 1) :: directory \<times> nat))) ''a.png''"
    by (simp add: os_path_isfile_def quiet_def)
  with T2 have "cleanup_entry quiet ?E 90000000000 ''a.png'' ([], 1)
                  = Inr (quiet ''a.png'' Isfile (fst (([], 1) :: directory \<times> nat)), snd (([], 1) :: directory \<times> nat))"
    by blast
  then have d: "cleanup_entry quiet ?E 90000000000 ''a.png'' ([], 1) = Inr ([], 1)"
    by (simp add: quiet_def)
  from a b c d show ?thesis by (intro conjI)
qed

section \<open>A failing entry\<close>

text \<open>
  Claim C3, as stated, fails: two expired files, and \<open>a.png\<close> is removed by another
  sweep between this sweep's \<^verbatim>\<open>getmtime\<close> and its \<^verbatim>\<open>os.remove\<close>. The exception
  leaves the loop, the response is the 500 body, and the expired \<open>b.png\<close> stays.
\<close>

theorem sweep_abort_counterexample:
  "cleanup_old_images (concurrent_removal ''a.png'' Remove) (stub_backend distinct_uuids)
     \<lparr>image_dir = [(''a.png'', \<lparr>content = ''A'', mtime = 0\<rparr>),
                   (''b.png'', \<lparr>content = ''B'', mtime = 0\<rparr>)],
      clock = 90000, local_now = 90000000000, uuid_calls = 2\<rparr>
   = (\<lparr>image_dir = [(''b.png'', \<lparr>content = ''B'', mtime = 0\<rparr>)],
       clock = 90000, local_now = 90000000000, uuid_calls = 2\<rparr>,
      Err500 (FileNotFoundError ''a.png''))"
  by (simp add: cleanup_old_images_def os_listdir_def cleanup_entry_def concurrent_removal_def
      os_path_isfile_def os_path_getmtime_def os_remove_def file_age_def stub_backend_def
      utc_fromtimestamp_def round_half_even_def)

text \<open>
  Claim C3, amended. An entry that is gone when its \<^verbatim>\<open>isfile\<close> test runs is skipped
  and the sweep goes on. An entry fails exactly when it passes that test and is gone at
  \<^verbatim>\<open>getmtime\<close>, or the conversion of its modification time raises, or it is expired
  and gone at \<^verbatim>\<open>os.remove\<close>; the entries after it are not looked at, what was
  deleted before stays deleted, and the sweep answers the 500 body.
\<close>

theorem sweep_entry_failure_aborts:
  "(\<not> os_path_isfile (env f Isfile (fst st)) f \<longrightarrow>
      cleanup_entry env E now f st = Inr (env f Isfile (fst st), snd st))
   \<and> (\<forall>e d'. cleanup_entry env E now f st = Inl (e, d') \<longleftrightarrow>
        os_path_isfile (env f Isfile (fst st)) f
        \<and> (e = FileNotFoundError f
              \<and> \<not> os_path_isfile (env f Getmtime (env f Isfile (fst st))) f
              \<and> d' = env f Getmtime (env f Isfile (fst st))
            \<or> (\<exists>m. os_path_getmtime (env f Getmtime (env f Isfile (fst st))) f = Inr m
                  \<and> fromtimestamp E m = Inl e
                  \<and> d' = env f Getmtime (env f Isfile (fst st)))
            \<or> (\<exists>m t. os_path_getmtime (env f Getmtime (env f Isfile (fst st))) f = Inr m
                  \<and> fromtimestamp E m = Inr t
                  \<and> now - t > 86400000000
                  \<and> e = FileNotFoundError f
                  \<and> \<not> os_path_isfile (env f Remove (env f Getmtime (env f Isfile (fst st)))) f
                  \<and> d' = env f Remove (env f Getmtime (env f Isfile (fst st))))))
   \<and> (\<forall>pre post st0 e d'.
        cleanup_loop env E now pre st0 = Inr st \<and> cleanup_entry env E now f st = Inl (e, d') \<longrightarrow>
        cleanup_loop env E now (pre @ f # post) st0 = Inl (e, d'))
   \<and> (\<forall>e d'.
        cleanup_loop env E (local_now w) (os_listdir (image_dir w)) (image_dir w, 0) = Inl (e, d') \<longrightarrow>
        cleanup_old_images env E w = (w\<lparr>image_dir := d'\<rparr>, Err500 e))"
proof (intro conjI allI impI)
  show "cleanup_entry env E now f st = Inr (env f Isfile (fst st), snd st)"
    if "\<not> os_path_isfile (env f Isfile (fst st)) f"
    using that by (simp add: cleanup_entry_def)
  show "cleanup_entry env E now f st = Inl (e, d') \<longleftrightarrow>
        os_path_isfile (env f Isfile (fst st)) f
        \<and> (e = FileNotFoundError f
              \<and> \<not> os_path_isfile (env f Getmtime (env f Isfile (fst st))) f
              \<and> d' = env f Getmtime (env f Isfile (fst st))
            \<or> (\<exists>m. os_path_getmtime (env f Getmtime (env f Isfile (fst st))) f = Inr m
                  \<and> fromtimestamp E m = Inl e
                  \<and> d' = env f Getmtime (env f Isfile (fst st)))
            \<or> (\<exists>m t. os_path_getmtime (env f Getmtime (env f Isfile (fst st))) f = Inr m
                  \<and> fromtimestamp E m = Inr t
                  \<and> now - t > 86400000000
                  \<and> e = FileNotFoundError f
                  \<and> \<not> os_path_isfile (env f Remove (env f Getmtime (env f Isfile (fst st)))) f
                  \<and> d' = env f Remove (env f Getmtime (env f Isfile (fst st)))))" for e d'
    by (auto simp: cleanup_entry_def Let_def os_path_isfile_def os_path_getmtime_def os_remove_def
        file_age_def split: option.splits sum.splits)
  show "cleanup_loop env E now (pre @ f # post) st0 = Inl (e, d')"
    if "cleanup_loop env E now pre st0 = Inr st \<and> cleanup_entry env E now f st = Inl (e, d')"
    for pre post st0 e d'
    using that by (simp add: cleanup_loop_append)
  show "cleanup_old_images env E w = (w\<lparr>image_dir := d'\<rparr>, Err500 e)"
    if "cleanup_loop env E (local_now w) (os_listdir (image_dir w)) (image_dir w, 0) = Inl (e, d')" for e d'
    using that by (simp add: cleanup_old_images_def)
qed

theorem sweep_entry_failure_aborts_witness:
  "cleanup_loop (concurrent_removal ''a.png'' Remove) (stub_backend distinct_uuids) 90000000000 [''c.png'']
       ([(''c.png'', \<lparr>content = ''C'', mtime = 80000\<rparr>), (''a.png'', \<lparr>content = ''A'', mtime = 0\<rparr>)], 0)
     = Inr ([(''c.png'', \<lparr>content = ''C'', mtime = 80000\<rparr>), (''a.png'', \<lparr>content = ''A'', mtime = 0\<rparr>)], 0)
   \<and> cleanup_entry (concurrent_removal ''a.png'' Remove) (stub_backend distinct_uuids) 90000000000 ''a.png''
       ([(''c.png'', \<lparr>content = ''C'', mtime = 80000\<rparr>), (''a.png'', \<lparr>content = ''A'', mtime = 0\<rparr>)], 0)
     = Inl (FileNotFoundError ''a.png'', [(''c.png'', \<lparr>content = ''C'', mtime = 80000\<rparr>)])
   \<and> cleanup_loop (concurrent_removal ''a.png'' Remove) (stub_backend distinct_uuids) 90000000000
       ([''c.png''] @ ''a.png'' # [''b.png''])
       ([(''c.png'', \<lparr>content = ''C'', mtime = 80000\<rparr>), (''a.png'', \<lparr>content = ''A'', mtime = 0\<rparr>)], 0)
     = Inl (FileNotFoundError ''a.png'', [(''c.png'', \<lparr>content = ''C'', mtime = 80000\<rparr>)])"
proof -
  let ?env = "concurrent_removal ''a.png'' Remove"
  let ?E = "stub_backend distinct_uuids"
  let ?d = "[(''c.png'', \<lparr>content = ''C'', mtime = 80000\<rparr>), (''a.png'', \<lparr>content = ''A'', mtime = 0\<rparr>)]"
  have ft: "fromtimestamp ?E = utc_fromtimestamp" by (simp add: stub_backend_def)
  have t0: "utc_fromtimestamp 0 = Inr 0" using utc_fromtimestamp_int[of 0] by simp
  have t8: "utc_fromtimestamp 80000 = Inr 80000000000" using utc_fromtimestamp_int[of 80000] by simp
  have pre: "cleanup_loop ?env ?E 90000000000 [''c.png''] (?d, 0) = Inr (?d, 0)"
    by (simp add: cleanup_entry_def concurrent_removal_def os_path_isfile_def os_path_getmtime_def
        file_age_def ft t8)
  have ent: "cleanup_entry ?env ?E 90000000000 ''a.png'' (?d, 0)
               = Inl (FileNotFoundError ''a.png'', [(''c.png'', \<lparr>content = ''C'', mtime = 80000\<rparr>)])"
    by (simp add: cleanup_entry_def concurrent_removal_def os_path_isfile_def os_path_getmtime_def
        os_remove_def file_age_def ft t0)
  from sweep_entry_failure_aborts[of ?env "''a.png''" "(?d, 0)" ?E 90000000000] pre ent
  have "cleanup_loop ?env ?E 90000000000 ([''c.png''] @ ''a.png'' # [''b.png'']) (?d, 0)
          = Inl (FileNotFoundError ''a.png'', [(''c.png'', \<lparr>content = ''C'', mtime = 80000\<rparr>)])"
    by blast
  with pre ent show ?thesis by blast
qed

section \<open>File names\<close>

text \<open>
  Claim C5 holds of the specification and not of the code. \<^verbatim>\<open>save_figure\<close> is
  commented \<^verbatim>\<open># Generate unique filename\<close>, keeps only the first eight digits of the
  UUID and never looks for a file of that name. Two histogram requests with the same
  input, served while \<^verbatim>\<open>uuid4\<close> returns two different UUIDs with the same first eight
  digits, get the same file name, and the second image replaces the first.
\<close>

theorem same_token_same_filename:
  "snd (generate_histogram (stub_backend colliding_uuids)
          \<lparr>image_dir = [], clock = 0, local_now = 0, uuid_calls = 0\<rparr>
          \<lparr>h_data = Some [1, 2, 3], h_bins = None\<rparr>)
     = Ok200 \<lparr>filename = ''histogram_01234567.png'', url = ''/api/images/histogram_01234567.png'',
              base64 = ''data:image/png;base64,PNG'', timestamp = 0\<rparr>
   \<and> generate_histogram (stub_backend colliding_uuids)
          ((fst (generate_histogram (stub_backend colliding_uuids)
                  \<lparr>image_dir = [], clock = 0, local_now = 0, uuid_calls = 0\<rparr>
                  \<lparr>h_data = Some [1, 2, 3], h_bins = None\<rparr>))\<lparr>clock := 5, local_now := 5000000\<rparr>)
          \<lparr>h_data = Some [1, 2, 3], h_bins = None\<rparr>
     = (\<lparr>image_dir = [(''histogram_01234567.png'', \<lparr>content = ''PNG'', mtime = 5\<rparr>)],
         clock = 5, local_now = 5000000, uuid_calls = 2\<rparr>,
        Ok200 \<lparr>filename = ''histogram_01234567.png'', url = ''/api/images/histogram_01234567.png'',
               base64 = ''data:image/png;base64,PNG'', timestamp = 5000000\<rparr>)
   \<and> colliding_uuids 0 \<noteq> colliding_uuids 1"
  by (simp add: generate_histogram_def save_figure_def stub_backend_def colliding_uuids_def
      write_file_def Let_def)

text \<open>
  What \<open>save_figure\<close> does to the directory: the new file is stored under the prefix and
  the first eight digits of the UUID, every other name keeps its file, and two saved
  figures have the same name exactly when their prefixes and their eight digits agree.
\<close>

lemma save_figure_effect:
  "(\<forall>w' d. save_figure E w fig prefix = Inr (w', d) \<longrightarrow>
       filename d = prefix @ ''_'' @ take 8 (uuid4_hex E (uuid_calls w)) @ ''.png''
     \<and> uuid_calls w' = Suc (uuid_calls w)
     \<and> (\<exists>png. draw E fig = Inr png
            \<and> map_of (image_dir w') (filename d) = Some \<lparr>content = png, mtime = clock w\<rparr>
            \<and> (\<not> os_path_exists (image_dir w) (filename d) \<longrightarrow>
                 image_dir w' = image_dir w @ [(filename d, \<lparr>content = png, mtime = clock w\<rparr>)]))
     \<and> (\<forall>g. g \<noteq> filename d \<longrightarrow> map_of (image_dir w') g = map_of (image_dir w) g))
   \<and> (\<forall>w1 fig1 prefix1 w1' d1 w2 fig2 prefix2 w2' d2.
        save_figure E w1 fig1 prefix1 = Inr (w1', d1)
        \<and> save_figure E w2 fig2 prefix2 = Inr (w2', d2)
        \<and> 8 \<le> length (uuid4_hex E (uuid_calls w1))
        \<and> 8 \<le> length (uuid4_hex E (uuid_calls w2)) \<longrightarrow>
        (filename d1 = filename d2 \<longleftrightarrow>
           prefix1 = prefix2
           \<and> take 8 (uuid4_hex E (uuid_calls w1)) = take 8 (uuid4_hex E (uuid_calls w2))))"
proof (intro conjI allI impI)
  fix w' d assume sv: "save_figure E w fig prefix = Inr (w', d)"
  from save_figure_world[OF sv] obtain png where
    dr: "draw E fig = Inr png"
    and fn: "filename d = prefix @ ''_'' @ take 8 (uuid4_hex E (uuid_calls w)) @ ''.png''"
    and im: "image_dir w' = AList.update (filename d) \<lparr>content = png, mtime = clock w\<rparr> (image_dir w)"
    and uc: "uuid_calls w' = Suc (uuid_calls w)" by auto
  show "filename d = prefix @ ''_'' @ take 8 (uuid4_hex E (uuid_calls w)) @ ''.png''" by (rule fn)
  show "uuid_calls w' = Suc (uuid_calls w)" by (rule uc)
  have m1: "map_of (image_dir w') (filename d) = Some \<lparr>content = png, mtime = clock w\<rparr>"
    by (simp add: im AList.update_conv')
  have m2: "\<not> os_path_exists (image_dir w) (filename d) \<longrightarrow>
            image_dir w' = image_dir w @ [(filename d, \<lparr>content = png, mtime = clock w\<rparr>)]"
    by (simp add: im os_path_exists_def map_of_eq_None_iff update_fresh)
  from dr m1 m2 show "\<exists>png. draw E fig = Inr png
            \<and> map_of (image_dir w') (filename d) = Some \<lparr>content = png, mtime = clock w\<rparr>
            \<and> (\<not> os_path_exists (image_dir w) (filename d) \<longrightarrow>
                 image_dir w' = image_dir w @ [(filename d, \<lparr>content = png, mtime = clock w\<rparr>)])"
    by blast
  fix g assume "g \<noteq> filename d"
  then show "map_of (image_dir w') g = map_of (image_dir w) g"
    by (simp add: im AList.update_conv')
next
  fix w1 fig1 prefix1 w1' d1 w2 fig2 prefix2 w2' d2
  assume h: "save_figure E w1 fig1 prefix1 = Inr (w1', d1)
        \<and> save_figure E w2 fig2 prefix2 = Inr (w2', d2)
        \<and> 8 \<le> length (uuid4_hex E (uuid_calls w1))
        \<and> 8 \<le> length (uuid4_hex E (uuid_calls w2))"
  from h save_figure_world[of E w1 fig1 prefix1 w1' d1]
  have f1: "filename d1 = prefix1 @ ''_'' @ take 8 (uuid4_hex E (uuid_calls w1)) @ ''.png''" by auto
  from h save_figure_world[of E w2 fig2 prefix2 w2' d2]
  have f2: "filename d2 = prefix2 @ ''_'' @ take 8 (uuid4_hex E (uuid_calls w2)) @ ''.png''" by auto
  from h have len: "length (take 8 (uuid4_hex E (uuid_calls w1))) = length (take 8 (uuid4_hex E (uuid_calls w2)))"
    by simp
  show "filename d1 = filename d2 \<longleftrightarrow>
           prefix1 = prefix2
           \<and> take 8 (uuid4_hex E (uuid_calls w1)) = take 8 (uuid4_hex E (uuid_calls w2))"
    unfolding f1 f2 by (rule filename_eq_iff[OF len])
qed

section \<open>Validation\<close>

text \<open>
  Claim C1, as stated, fails: a scatter request whose \<^verbatim>\<open>y_data\<close> is shorter than its
  \<^verbatim>\<open>x_data\<close> and \<^verbatim>\<open>classes\<close> passes the only test the handler makes and fails
  when the data frame is built, as a 500 and not as a 400.
\<close>

theorem length_mismatch_counterexample:
  "generate_scatter (stub_backend distinct_uuids)
     \<lparr>image_dir = [], clock = 0, local_now = 0, uuid_calls = 0\<rparr>
     \<lparr>x_data = Some [1, 2], y_data = Some [1], classes = Some [1, 0]\<rparr>
   = (\<lparr>image_dir = [], clock = 0, local_now = 0, uuid_calls = 0\<rparr>,
      Err500 (ValueError ''All arrays must be of the same length''))"
  by (simp add: generate_scatter_def scatter_figure_def)

text \<open>
  Claim C1, amended. A handler answers 400, with the directory and the UUID counter
  untouched and whatever the backend would do, exactly when a required top-level array
  is missing or empty (\<^verbatim>\<open>data\<close> of a histogram, \<^verbatim>\<open>x_data\<close> or \<^verbatim>\<open>y_data\<close> of a
  scatter plot, \<^verbatim>\<open>categories\<close> or \<^verbatim>\<open>values\<close> of a bar chart, \<^verbatim>\<open>data\<close> of the
  report) or a multi-histogram has fewer than two datasets. Nothing else is validated:
  \<^verbatim>\<open>bins\<close> goes to the backend as it is, x and y of different lengths go to the
  backend as they are when there are no classes, and with classes a length mismatch
  raises while the data frame is built and is answered with a 500.
\<close>

theorem validation_rejects_empty_input:
  "((h_data hreq = None \<or> h_data hreq = Some []) \<longrightarrow>
      generate_histogram E w hreq = (w, Err400 ''No data provided''))
   \<and> ((\<exists>m. snd (generate_histogram E w hreq) = Err400 m) \<longrightarrow>
      (h_data hreq = None \<or> h_data hreq = Some []))
   \<and> ((x_data sreq = None \<or> x_data sreq = Some [] \<or> y_data sreq = None \<or> y_data sreq = Some []) \<longrightarrow>
      generate_scatter E w sreq = (w, Err400 ''x_data and y_data required''))
   \<and> ((\<exists>m. snd (generate_scatter E w sreq) = Err400 m) \<longrightarrow>
      (x_data sreq = None \<or> x_data sreq = Some [] \<or> y_data sreq = None \<or> y_data sreq = Some []))
   \<and> ((datasets mreq = None \<or> (\<exists>dss. datasets mreq = Some dss \<and> length dss < 2)) \<longrightarrow>
      generate_multi_histogram E w mreq = (w, Err400 ''At least 2 datasets required''))
   \<and> ((\<exists>m. snd (generate_multi_histogram E w mreq) = Err400 m) \<longrightarrow>
      (datasets mreq = None \<or> (\<exists>dss. datasets mreq = Some dss \<and> length dss < 2)))
   \<and> ((categories breq = None \<or> categories breq = Some []
         \<or> bar_values breq = None \<or> bar_values breq = Some []) \<longrightarrow>
      generate_bar_chart E w breq = (w, Err400 ''categories and values required''))
   \<and> ((\<exists>m. snd (generate_bar_chart E w breq) = Err400 m) \<longrightarrow>
      (categories breq = None \<or> categories breq = Some []
         \<or> bar_values breq = None \<or> bar_values breq = Some []))
   \<and> ((records rreq = None \<or> records rreq = Some []) \<longrightarrow>
      visualize_blood_data E w rreq = (w, Err400 ''No data provided''))
   \<and> ((\<exists>m. snd (visualize_blood_data E w rreq) = Err400 m) \<longrightarrow>
      (records rreq = None \<or> records rreq = Some []))
   \<and> (\<forall>vals b. vals \<noteq> [] \<longrightarrow>
        generate_histogram E w \<lparr>h_data = Some vals, h_bins = Some b\<rparr>
          = (case save_figure E w (histogram_figure E vals b) ''histogram'' of
               Inl e \<Rightarrow> (w, Err500 e)
             | Inr (w', d) \<Rightarrow> (w', Ok200 d)))
   \<and> (\<forall>xs ys. xs \<noteq> [] \<and> ys \<noteq> [] \<longrightarrow>
        generate_scatter E w \<lparr>x_data = Some xs, y_data = Some ys, classes = None\<rparr>
          = (case save_figure E w
                    (Scatter [\<lparr>sx = map Some xs, sy = map Some ys,
                               s_color = ''#3b82f6'', s_label = None\<rparr>] False) ''scatter'' of
               Inl e \<Rightarrow> (w, Err500 e)
             | Inr (w', d) \<Rightarrow> (w', Ok200 d)))
   \<and> (\<forall>xs ys cs. xs \<noteq> [] \<and> ys \<noteq> [] \<and> cs \<noteq> []
          \<and> \<not> (length xs = length ys \<and> length cs = length xs) \<longrightarrow>
        generate_scatter E w \<lparr>x_data = Some xs, y_data = Some ys, classes = Some cs\<rparr>
          = (w, Err500 (ValueError ''All arrays must be of the same length'')))"
proof (intro conjI allI impI)
  show "generate_histogram E w hreq = (w, Err400 ''No data provided'')"
    if "h_data hreq = None \<or> h_data hreq = Some []"
    using that by (auto simp: generate_histogram_def)
  show "h_data hreq = None \<or> h_data hreq = Some []"
    if "\<exists>m. snd (generate_histogram E w hreq) = Err400 m"
    using that by (auto simp: generate_histogram_def Let_def split: option.splits if_splits sum.splits)
  show "generate_scatter E w sreq = (w, Err400 ''x_data and y_data required'')"
    if "x_data sreq = None \<or> x_data sreq = Some [] \<or> y_data sreq = None \<or> y_data sreq = Some []"
    using that by (auto simp: generate_scatter_def Let_def split: option.splits)
  show "x_data sreq = None \<or> x_data sreq = Some [] \<or> y_data sreq = None \<or> y_data sreq = Some []"
    if "\<exists>m. snd (generate_scatter E w sreq) = Err400 m"
    using that by (auto simp: generate_scatter_def Let_def split: option.splits if_splits sum.splits)
  show "generate_multi_histogram E w mreq = (w, Err400 ''At least 2 datasets required'')"
    if "datasets mreq = None \<or> (\<exists>dss. datasets mreq = Some dss \<and> length dss < 2)"
    using that by (auto simp: generate_multi_histogram_def)
  show "datasets mreq = None \<or> (\<exists>dss. datasets mreq = Some dss \<and> length dss < 2)"
    if "\<exists>m. snd (generate_multi_histogram E w mreq) = Err400 m"
    using that
    by (auto simp: generate_multi_histogram_def Let_def split: option.splits if_splits sum.splits)
  show "generate_bar_chart E w breq = (w, Err400 ''categories and values required'')"
    if "categories breq = None \<or> categories breq = Some []
         \<or> bar_values breq = None \<or> bar_values breq = Some []"
    using that by (auto simp: generate_bar_chart_def Let_def split: option.splits)
  show "categories breq = None \<or> categories breq = Some []
         \<or> bar_values breq = None \<or> bar_values breq = Some []"
    if "\<exists>m. snd (generate_bar_chart E w breq) = Err400 m"
    using that
    by (auto simp: generate_bar_chart_def Let_def split: option.splits if_splits sum.splits)
  show "visualize_blood_data E w rreq = (w, Err400 ''No data provided'')"
    if "records rreq = None \<or> records rreq = Some []"
    using that by (auto simp: visualize_blood_data_def)
  show "records rreq = None \<or> records rreq = Some []"
    if "\<exists>m. snd (visualize_blood_data E w rreq) = Err400 m"
    using that
    by (auto simp: visualize_blood_data_def Let_def split: option.splits if_splits sum.splits)
  show "generate_histogram E w \<lparr>h_data = Some vals, h_bins = Some b\<rparr>
          = (case save_figure E w (histogram_figure E vals b) ''histogram'' of
               Inl e \<Rightarrow> (w, Err500 e)
             | Inr (w', d) \<Rightarrow> (w', Ok200 d))" if "vals \<noteq> []" for vals b
    using that by (simp add: generate_histogram_def)
  show "generate_scatter E w \<lparr>x_data = Some xs, y_data = Some ys, classes = None\<rparr>
          = (case save_figure E w
                    (Scatter [\<lparr>sx = map Some xs, sy = map Some ys,
                               s_color = ''#3b82f6'', s_label = None\<rparr>] False) ''scatter'' of
               Inl e \<Rightarrow> (w, Err500 e)
             | Inr (w', d) \<Rightarrow> (w', Ok200 d))" if "xs \<noteq> [] \<and> ys \<noteq> []" for xs ys
    using that by (simp add: generate_scatter_def scatter_figure_def)
  show "generate_scatter E w \<lparr>x_data = Some xs, y_data = Some ys, classes = Some cs\<rparr>
          = (w, Err500 (ValueError ''All arrays must be of the same length''))"
    if "xs \<noteq> [] \<and> ys \<noteq> [] \<and> cs \<noteq> [] \<and> \<not> (length xs = length ys \<and> length cs = length xs)"
    for xs ys cs
    using that by (auto simp: generate_scatter_def scatter_figure_def)
qed

theorem validation_rejects_empty_input_witness:
  "generate_histogram (stub_backend distinct_uuids) \<lparr>image_dir = [], clock = 0, local_now = 0, uuid_calls = 0\<rparr>
       \<lparr>h_data = Some [], h_bins = Some 10\<rparr>
     = (\<lparr>image_dir = [], clock = 0, local_now = 0, uuid_calls = 0\<rparr>, Err400 ''No data provided'')
   \<and> generate_scatter (stub_backend distinct_uuids) \<lparr>image_dir = [], clock = 0, local_now = 0, uuid_calls = 0\<rparr>
       \<lparr>x_data = Some [1, 2], y_data = None, classes = None\<rparr>
     = (\<lparr>image_dir = [], clock = 0, local_now = 0, uuid_calls = 0\<rparr>, Err400 ''x_data and y_data required'')
   \<and> generate_multi_histogram (stub_backend distinct_uuids) \<lparr>image_dir = [], clock = 0, local_now = 0, uuid_calls = 0\<rparr>
       \<lparr>datasets = Some [\<lparr>d_data = Some [1, 2], d_color = None\<rparr>]\<rparr>
     = (\<lparr>image_dir = [], clock = 0, local_now = 0, uuid_calls = 0\<rparr>, Err400 ''At least 2 datasets required'')
   \<and> generate_bar_chart (stub_backend distinct_uuids) \<lparr>image_dir = [], clock = 0, local_now = 0, uuid_calls = 0\<rparr>
       \<lparr>categories = Some [''a''], bar_values = Some []\<rparr>
     = (\<lparr>image_dir = [], clock = 0, local_now = 0, uuid_calls = 0\<rparr>, Err400 ''categories and values required'')
   \<and> visualize_blood_data (stub_backend distinct_uuids) \<lparr>image_dir = [], clock = 0, local_now = 0, uuid_calls = 0\<rparr>
       \<lparr>records = None\<rparr>
     = (\<lparr>image_dir = [], clock = 0, local_now = 0, uuid_calls = 0\<rparr>, Err400 ''No data provided'')
   \<and> generate_scatter (stub_backend distinct_uuids) \<lparr>image_dir = [], clock = 0, local_now = 0, uuid_calls = 0\<rparr>
       \<lparr>x_data = Some [1, 2], y_data = Some [5], classes = Some [1]\<rparr>
     = (\<lparr>image_dir = [], clock = 0, local_now = 0, uuid_calls = 0\<rparr>,
        Err500 (ValueError ''All arrays must be of the same length''))"
proof -
  let ?E = "stub_backend distinct_uuids"
  let ?W = "\<lparr>image_dir = [], clock = 0, local_now = 0, uuid_calls = 0\<rparr>"
  let ?h = "\<lparr>h_data = Some ([] :: real list), h_bins = Some 10\<rparr>"
  let ?s = "\<lparr>x_data = Some [1, 2], y_data = None, classes = None\<rparr>"
  let ?m = "\<lparr>datasets = Some [\<lparr>d_data = Some [1, 2], d_color = None\<rparr>]\<rparr>"
  let ?b = "\<lparr>categories = Some [''a''], bar_values = Some []\<rparr>"
  let ?r = "\<lparr>records = None\<rparr>"
  note T = validation_rejects_empty_input[of ?h ?E ?W ?s ?m ?b ?r]
  have h: "h_data ?h = None \<or> h_data ?h = Some []" by simp
  have s: "x_data ?s = None \<or> x_data ?s = Some [] \<or> y_data ?s = None \<or> y_data ?s = Some []" by simp
  have m: "datasets ?m = None \<or> (\<exists>dss. datasets ?m = Some dss \<and> length dss < 2)" by simp
  have b: "categories ?b = None \<or> categories ?b = Some []
         \<or> bar_values ?b = None \<or> bar_values ?b = Some []" by simp
  have r: "records ?r = None \<or> records ?r = Some []" by simp
  have mm: "[1, 2] \<noteq> ([] :: real list) \<and> [5] \<noteq> ([] :: real list) \<and> [1] \<noteq> ([] :: real list)
            \<and> \<not> (length [1, 2 :: real] = length [5 :: real] \<and> length [1 :: real] = length [1, 2 :: real])"
    by simp
  note c2 = conjunct2
  have 1: "generate_histogram ?E ?W ?h = (?W, Err400 ''No data provided'')"
    by (rule T[THEN conjunct1, THEN mp, OF h])
  have 2: "generate_scatter ?E ?W ?s = (?W, Err400 ''x_data and y_data required'')"
    by (rule T[THEN c2, THEN c2, THEN conjunct1, THEN mp, OF s])
  have 3: "generate_multi_histogram ?E ?W ?m = (?W, Err400 ''At least 2 datasets required'')"
    by (rule T[THEN c2, THEN c2, THEN c2, THEN c2, THEN conjunct1, THEN mp, OF m])
  have 4: "generate_bar_chart ?E ?W ?b = (?W, Err400 ''categories and values required'')"
    by (rule T[THEN c2, THEN c2, THEN c2, THEN c2, THEN c2, THEN c2, THEN conjunct1, THEN mp, OF b])
  have 5: "visualize_blood_data ?E ?W ?r = (?W, Err400 ''No data provided'')"
    by (rule T[THEN c2, THEN c2, THEN c2, THEN c2, THEN c2, THEN c2, THEN c2, THEN c2,
               THEN conjunct1, THEN mp, OF r])
  have 6: "generate_scatter ?E ?W \<lparr>x_data = Some [1, 2], y_data = Some [5], classes = Some [1]\<rparr>
     = (?W, Err500 (ValueError ''All arrays must be of the same length''))"
    by (rule T[THEN c2, THEN c2, THEN c2, THEN c2, THEN c2, THEN c2, THEN c2, THEN c2,
               THEN c2, THEN c2, THEN c2, THEN c2, THEN spec, THEN spec, THEN spec, THEN mp, OF mm])
  from 1 2 3 4 5 6 show ?thesis by (intro conjI)
qed

section \<open>Scatter plot by class\<close>

lemma set_unique: "set (unique xs) = set xs"
  by (induction xs rule: unique.induct) auto

lemma distinct_unique: "distinct (unique xs)"
  by (induction xs rule: unique.induct) (auto simp: set_unique)

lemma partition_sizes:
  "k ` set rows \<subseteq> set cs \<Longrightarrow>
   (\<Sum>c\<leftarrow>unique cs. length [r \<leftarrow> rows. k r = c]) = length rows"
proof (induction cs arbitrary: rows rule: unique.induct)
  case 1
  then show ?case by simp
next
  case (2 x xs)
  let ?rest = "[r \<leftarrow> rows. k r \<noteq> x]"
  have sub: "k ` set ?rest \<subseteq> set (filter (\<lambda>y. y \<noteq> x) xs)"
    using "2.prems" by auto
  have same: "\<And>c. c \<in> set (unique (filter (\<lambda>y. y \<noteq> x) xs)) \<Longrightarrow>
                 [r \<leftarrow> rows. k r = c] = [r \<leftarrow> ?rest. k r = c]"
  proof -
    fix c assume "c \<in> set (unique (filter (\<lambda>y. y \<noteq> x) xs))"
    then have "c \<noteq> x" by (simp add: set_unique)
    then show "[r \<leftarrow> rows. k r = c] = [r \<leftarrow> ?rest. k r = c]"
      unfolding filter_filter by (intro filter_cong) auto
  qed
  have "(\<Sum>c\<leftarrow>unique (filter (\<lambda>y. y \<noteq> x) xs). length [r \<leftarrow> rows. k r = c])
          = (\<Sum>c\<leftarrow>unique (filter (\<lambda>y. y \<noteq> x) xs). length [r \<leftarrow> ?rest. k r = c])"
    by (rule arg_cong[where f = sum_list], rule map_cong) (simp_all add: same)
  also have "\<dots> = length ?rest" by (rule "2.IH"[OF sub])
  finally have tail: "(\<Sum>c\<leftarrow>unique (filter (\<lambda>y. y \<noteq> x) xs). length [r \<leftarrow> rows. k r = c]) = length ?rest" .
  have "length [r \<leftarrow> rows. k r = x] + length ?rest = length rows"
    by (rule sum_length_filter_compl)
  with tail show ?case by simp
qed

lemma map_class_zip:
  "length ys = length xs \<Longrightarrow> length cs = length xs \<Longrightarrow>
   map (\<lambda>r. snd (snd r)) (zip xs (zip ys cs)) = cs"
proof -
  assume ly: "length ys = length xs" and lc: "length cs = length xs"
  have "map (\<lambda>r. snd (snd r)) (zip xs (zip ys cs)) = map snd (map snd (zip xs (zip ys cs)))"
    by (simp add: comp_def)
  also have "map snd (zip xs (zip ys cs)) = zip ys cs"
    using ly lc by (intro map_snd_zip) simp
  also have "map snd (zip ys cs) = cs"
    using ly lc by (intro map_snd_zip) simp
  finally show ?thesis .
qed

lemma scatter_groups:
  assumes "xs \<noteq> []" and "length ys = length xs" and "length cs = length xs"
  shows "\<exists>groups.
           scatter_figure xs ys (Some cs) = Inr (Scatter groups True)
         \<and> length groups = card (set cs)
         \<and> (\<forall>g \<in> set groups. \<exists>c \<in> set cs.
               sx g = map (\<lambda>r. Some (fst r)) [r \<leftarrow> zip xs (zip ys cs). snd (snd r) = c]
             \<and> sy g = map (\<lambda>r. Some (fst (snd r))) [r \<leftarrow> zip xs (zip ys cs). snd (snd r) = c]
             \<and> (c = 1 \<longrightarrow> s_color g = ''#10b981'' \<and> s_label g = Some ''Return Donor'')
             \<and> (c \<noteq> 1 \<longrightarrow> s_color g = ''#ef4444'' \<and> s_label g = Some ''Non-Return Donor''))
         \<and> (\<Sum>g\<leftarrow>groups. length (sx g)) = length xs
         \<and> (\<Sum>g\<leftarrow>groups. length (sy g)) = length xs
         \<and> generate_scatter E w \<lparr>x_data = Some xs, y_data = Some ys, classes = Some cs\<rparr>
             = (case save_figure E w (Scatter groups True) ''scatter'' of
                  Inl e \<Rightarrow> (w, Err500 e)
                | Inr (w', d) \<Rightarrow> (w', Ok200 d))"
proof -
  let ?df = "zip xs (zip ys cs)"
  let ?k = "\<lambda>r :: real \<times> real \<times> real. snd (snd r)"
  let ?groups = "map (class_series ?df) (unique cs)"
  from assms have cne: "cs \<noteq> []" and yne: "ys \<noteq> []" by auto
  have fig: "scatter_figure xs ys (Some cs) = Inr (Scatter ?groups True)"
    using assms cne by (simp add: scatter_figure_def)
  have cnt: "length ?groups = card (set cs)"
    using distinct_card[OF distinct_unique, of cs] by (simp add: set_unique)
  have each: "\<forall>g \<in> set ?groups. \<exists>c \<in> set cs.
               sx g = map (\<lambda>r. Some (fst r)) [r \<leftarrow> ?df. snd (snd r) = c]
             \<and> sy g = map (\<lambda>r. Some (fst (snd r))) [r \<leftarrow> ?df. snd (snd r) = c]
             \<and> (c = 1 \<longrightarrow> s_color g = ''#10b981'' \<and> s_label g = Some ''Return Donor'')
             \<and> (c \<noteq> 1 \<longrightarrow> s_color g = ''#ef4444'' \<and> s_label g = Some ''Non-Return Donor'')"
    by (auto simp: class_series_def Let_def set_unique)
  have keys: "?k ` set ?df \<subseteq> set cs"
  proof -
    have "?k ` set ?df = set (map ?k ?df)" by simp
    also have "\<dots> = set cs" by (simp only: map_class_zip[OF assms(2,3)])
    finally show ?thesis by simp
  qed
  have tot: "(\<Sum>c\<leftarrow>unique cs. length [r \<leftarrow> ?df. ?k r = c]) = length xs"
    using partition_sizes[OF keys] assms by simp
  have sxs: "(\<Sum>g\<leftarrow>?groups. length (sx g)) = length xs"
    using tot by (simp add: class_series_def Let_def comp_def)
  have sys: "(\<Sum>g\<leftarrow>?groups. length (sy g)) = length xs"
    using tot by (simp add: class_series_def Let_def comp_def)
  have handler: "generate_scatter E w \<lparr>x_data = Some xs, y_data = Some ys, classes = Some cs\<rparr>
             = (case save_figure E w (Scatter ?groups True) ''scatter'' of
                  Inl e \<Rightarrow> (w, Err500 e)
                | Inr (w', d) \<Rightarrow> (w', Ok200 d))"
    using assms(1) yne by (simp add: generate_scatter_def fig)
  from fig cnt each sxs sys handler show ?thesis by blast
qed

lemma scatter_example:
  "scatter_figure [x1, x2, x3] [y1, y2, y3] (Some [1, 0, 1])
     = Inr (Scatter [\<lparr>sx = [Some x1, Some x3], sy = [Some y1, Some y3],
                      s_color = ''#10b981'', s_label = Some ''Return Donor''\<rparr>,
                     \<lparr>sx = [Some x2], sy = [Some y2],
                      s_color = ''#ef4444'', s_label = Some ''Non-Return Donor''\<rparr>] True)"
  by (simp add: scatter_figure_def class_series_def)

lemma scatter_no_classes:
  "scatter_figure xs ys None
     = Inr (Scatter [\<lparr>sx = map Some xs, sy = map Some ys, s_color = ''#3b82f6'', s_label = None\<rparr>] False)"
  by (simp add: scatter_figure_def)

text \<open>
  Claim C7. For a scatter request with non-empty x, y and classes of one length, the
  figure has one series for each distinct class value, with the points of that class;
  class 1 is drawn in \<open>#10b981\<close> as Return Donor and every other class, 0 among them,
  in \<open>#ef4444\<close> as Non-Return Donor; the series together have as many points as the
  input. With classes 1, 0, 1 there are two series, of two points and of one. Without
  classes there is one series in the default colour, without label or legend.
\<close>

theorem scatter_partitions_by_class:
  "(xs \<noteq> [] \<and> length ys = length xs \<and> length cs = length xs \<longrightarrow>
      (\<exists>groups.
           scatter_figure xs ys (Some cs) = Inr (Scatter groups True)
         \<and> length groups = card (set cs)
         \<and> (\<forall>g \<in> set groups. \<exists>c \<in> set cs.
               sx g = map (\<lambda>r. Some (fst r)) [r \<leftarrow> zip xs (zip ys cs). snd (snd r) = c]
             \<and> sy g = map (\<lambda>r. Some (fst (snd r))) [r \<leftarrow> zip xs (zip ys cs). snd (snd r) = c]
             \<and> (c = 1 \<longrightarrow> s_color g = ''#10b981'' \<and> s_label g = Some ''Return Donor'')
             \<and> (c \<noteq> 1 \<longrightarrow> s_color g = ''#ef4444'' \<and> s_label g = Some ''Non-Return Donor''))
         \<and> (\<Sum>g\<leftarrow>groups. length (sx g)) = length xs
         \<and> (\<Sum>g\<leftarrow>groups. length (sy g)) = length xs
         \<and> generate_scatter E w \<lparr>x_data = Some xs, y_data = Some ys, classes = Some cs\<rparr>
             = (case save_figure E w (Scatter groups True) ''scatter'' of
                  Inl e \<Rightarrow> (w, Err500 e)
                | Inr (w', d) \<Rightarrow> (w', Ok200 d))))
   \<and> scatter_figure [x1, x2, x3] [y1, y2, y3] (Some [1, 0, 1])
       = Inr (Scatter [\<lparr>sx = [Some x1, Some x3], sy = [Some y1, Some y3],
                        s_color = ''#10b981'', s_label = Some ''Return Donor''\<rparr>,
                       \<lparr>sx = [Some x2], sy = [Some y2],
                        s_color = ''#ef4444'', s_label = Some ''Non-Return Donor''\<rparr>] True)
   \<and> scatter_figure xs ys None
       = Inr (Scatter [\<lparr>sx = map Some xs, sy = map Some ys,
                        s_color = ''#3b82f6'', s_label = None\<rparr>] False)
   \<and> (xs \<noteq> [] \<and> ys \<noteq> [] \<longrightarrow>
        generate_scatter E w \<lparr>x_data = Some xs, y_data = Some ys, classes = None\<rparr>
          = (case save_figure E w
                    (Scatter [\<lparr>sx = map Some xs, sy = map Some ys,
                               s_color = ''#3b82f6'', s_label = None\<rparr>] False) ''scatter'' of
               Inl e \<Rightarrow> (w, Err500 e)
             | Inr (w', d) \<Rightarrow> (w', Ok200 d)))"
proof (intro conjI impI)
  assume "xs \<noteq> [] \<and> length ys = length xs \<and> length cs = length xs"
  then show "\<exists>groups.
           scatter_figure xs ys (Some cs) = Inr (Scatter groups True)
         \<and> length groups = card (set cs)
         \<and> (\<forall>g \<in> set groups. \<exists>c \<in> set cs.
               sx g = map (\<lambda>r. Some (fst r)) [r \<leftarrow> zip xs (zip ys cs). snd (snd r) = c]
             \<and> sy g = map (\<lambda>r. Some (fst (snd r))) [r \<leftarrow> zip xs (zip ys cs). snd (snd r) = c]
             \<and> (c = 1 \<longrightarrow> s_color g = ''#10b981'' \<and> s_label g = Some ''Return Donor'')
             \<and> (c \<noteq> 1 \<longrightarrow> s_color g = ''#ef4444'' \<and> s_label g = Some ''Non-Return Donor''))
         \<and> (\<Sum>g\<leftarrow>groups. length (sx g)) = length xs
         \<and> (\<Sum>g\<leftarrow>groups. length (sy g)) = length xs
         \<and> generate_scatter E w \<lparr>x_data = Some xs, y_data = Some ys, classes = Some cs\<rparr>
             = (case save_figure E w (Scatter groups True) ''scatter'' of
                  Inl e \<Rightarrow> (w, Err500 e)
                | Inr (w', d) \<Rightarrow> (w', Ok200 d))"
    using scatter_groups[of xs ys cs E w] by blast
next
  show "scatter_figure [x1, x2, x3] [y1, y2, y3] (Some [1, 0, 1])
       = Inr (Scatter [\<lparr>sx = [Some x1, Some x3], sy = [Some y1, Some y3],
                        s_color = ''#10b981'', s_label = Some ''Return Donor''\<rparr>,
                       \<lparr>sx = [Some x2], sy = [Some y2],
                        s_color = ''#ef4444'', s_label = Some ''Non-Return Donor''\<rparr>] True)"
    by (rule scatter_example)
  show "scatter_figure xs ys None
       = Inr (Scatter [\<lparr>sx = map Some xs, sy = map Some ys,
                        s_color = ''#3b82f6'', s_label = None\<rparr>] False)"
    by (rule scatter_no_classes)
  assume "xs \<noteq> [] \<and> ys \<noteq> []"
  then show "generate_scatter E w \<lparr>x_data = Some xs, y_data = Some ys, classes = None\<rparr>
          = (case save_figure E w
                    (Scatter [\<lparr>sx = map Some xs, sy = map Some ys,
                               s_color = ''#3b82f6'', s_label = None\<rparr>] False) ''scatter'' of
               Inl e \<Rightarrow> (w, Err500 e)
             | Inr (w', d) \<Rightarrow> (w', Ok200 d))"
    by (simp add: generate_scatter_def scatter_no_classes)
qed

theorem scatter_partitions_by_class_witness:
  "[10, 20, 30] \<noteq> ([] :: real list)
   \<and> length [1, 2, 3 :: real] = length [10, 20, 30 :: real]
   \<and> length [1, 0, 1 :: real] = length [10, 20, 30 :: real]
   \<and> (\<exists>groups. scatter_figure [10, 20, 30] [1, 2, 3] (Some [1, 0, 1]) = Inr (Scatter groups True)
         \<and> length groups = 2
         \<and> (\<Sum>g\<leftarrow>groups. length (sx g)) = 3)"
proof -
  have h: "[10, 20, 30] \<noteq> ([] :: real list)
           \<and> length [1, 2, 3 :: real] = length [10, 20, 30 :: real]
           \<and> length [1, 0, 1 :: real] = length [10, 20, 30 :: real]" by simp
  have c: "card (set [1, 0, 1 :: real]) = 2" by (simp add: card_insert_if)
  from scatter_partitions_by_class[of "[10, 20, 30]" "[1, 2, 3]" "[1, 0, 1]"] h
  obtain groups where
    "scatter_figure [10, 20, 30] [1, 2, 3] (Some [1, 0, 1]) = Inr (Scatter groups True)"
    "length groups = card (set [1, 0, 1 :: real])"
    "(\<Sum>g\<leftarrow>groups. length (sx g)) = length [10, 20, 30 :: real]"
    by blast
  with c have "scatter_figure [10, 20, 30] [1, 2, 3] (Some [1, 0, 1]) = Inr (Scatter groups True)
         \<and> length groups = 2 \<and> (\<Sum>g\<leftarrow>groups. length (sx g)) = 3"
    by simp
  with h show ?thesis by blast
qed

section \<open>The grid of the multi-histogram\<close>

lemma plot_datasets_eq:
  "idx + length dss \<le> length axs \<Longrightarrow>
   plot_datasets E idx dss axs
     = Inr (take idx axs @ map (dataset_axes E) dss @ drop (idx + length dss) axs)"
proof (induction dss arbitrary: idx axs)
  case Nil
  then show ?case by simp
next
  case (Cons ds rest)
  then have lt: "idx < length axs" by simp
  have le: "Suc idx + length rest \<le> length (axs[idx := dataset_axes E ds])"
    using Cons.prems by simp
  have tk: "take (Suc idx) (axs[idx := dataset_axes E ds]) = take idx axs @ [dataset_axes E ds]"
    using lt by (simp add: take_Suc_conv_app_nth)
  have dr: "drop (Suc idx + length rest) (axs[idx := dataset_axes E ds]) = drop (Suc idx + length rest) axs"
    by simp
  show ?case
    using lt Cons.IH[OF le] by (simp add: tk dr)
qed

lemma fold_update_range:
  "n \<le> m \<Longrightarrow> m \<le> length axs \<Longrightarrow>
   fold (\<lambda>idx a. a[idx := v]) [n ..< m] axs = take n axs @ replicate (m - n) v @ drop m axs"
proof (induction m)
  case 0
  then show ?case by simp
next
  case (Suc m)
  show ?case
  proof (cases "n = Suc m")
    case True
    then show ?thesis by simp
  next
    case False
    with Suc.prems have nm: "n \<le> m" and ml: "m \<le> length axs" and mlt: "m < length axs" by simp_all
    have len: "length (take n axs @ replicate (m - n) v) = m"
      using nm ml by simp
    have "fold (\<lambda>idx a. a[idx := v]) [n ..< Suc m] axs
            = (take n axs @ replicate (m - n) v @ drop m axs)[m := v]"
      using nm Suc.IH[OF nm ml] by simp
    also have "\<dots> = (take n axs @ replicate (m - n) v) @ (drop m axs)[0 := v]"
      using len by (metis append.assoc list_update_length list_update_append diff_self_eq_0 less_irrefl)
    also have "(drop m axs)[0 := v] = v # drop (Suc m) axs"
      using mlt by (simp add: Cons_nth_drop_Suc[symmetric])
    also have "(take n axs @ replicate (m - n) v) @ v # drop (Suc m) axs
                 = take n axs @ replicate (Suc m - n) v @ drop (Suc m) axs"
      using nm by (simp add: Suc_diff_le replicate_append_same)
    finally show ?thesis .
  qed
qed

lemma hide_unused_eq:
  "n \<le> length axs \<Longrightarrow> hide_unused n axs = take n axs @ replicate (length axs - n) Hidden"
  by (simp add: hide_unused_def fold_update_range)

lemma multi_histogram_figure_eq:
  assumes "2 \<le> length dss"
  shows "multi_histogram_figure E dss
     = Inr (Subplots ((length dss + 1) div 2) 2
              (map (dataset_axes E) dss @ replicate (((length dss + 1) div 2) * 2 - length dss) Hidden))"
proof -
  let ?n = "length dss"
  let ?rows = "(?n + 1) div 2"
  have le: "0 + ?n \<le> length (replicate (?rows * 2) Blank)" by simp
  have p: "plot_datasets E 0 dss (replicate (?rows * 2) Blank)
            = Inr (map (dataset_axes E) dss @ replicate (?rows * 2 - ?n) Blank)"
    using plot_datasets_eq[OF le] by simp
  have h: "hide_unused ?n (map (dataset_axes E) dss @ replicate (?rows * 2 - ?n) Blank)
            = map (dataset_axes E) dss @ replicate (?rows * 2 - ?n) Hidden"
  proof -
    let ?a = "map (dataset_axes E) dss @ replicate (?rows * 2 - ?n) Blank"
    have l1: "?n \<le> length ?a" by simp
    have l2: "length ?a - ?n = ?rows * 2 - ?n" by simp
    have l3: "take ?n ?a = map (dataset_axes E) dss" by simp
    show ?thesis
      unfolding hide_unused_eq[OF l1] l2 l3 ..
  qed
  from assms have c: "(if 1 < ?n then 2 else 1) = (2::nat)" by simp
  show ?thesis
    unfolding multi_histogram_figure_def Let_def c p sum.case h ..
qed

text \<open>
  Claim C8. For N \<ge> 2 datasets the figure is a grid of \<open>\<lceil>N / 2\<rceil>\<close> rows and 2 columns;
  cell i < N is the histogram of dataset i with the mean of that dataset's own values,
  and every cell from N on is hidden. With three datasets the grid is 2 by 2 and its
  fourth cell is hidden.
\<close>

theorem multi_histogram_grid:
  assumes "2 \<le> length dss"
  shows "\<exists>axs. multi_histogram_figure E dss = Inr (Subplots (nat \<lceil>real (length dss) / 2\<rceil>) 2 axs)
           \<and> length axs = nat \<lceil>real (length dss) / 2\<rceil> * 2
           \<and> (\<forall>i < length dss.
                 axs ! i = HistAxes (map Some (case d_data (dss ! i) of None \<Rightarrow> [] | Some v \<Rightarrow> v)) 20
                             (case d_color (dss ! i) of None \<Rightarrow> ''#3b82f6'' | Some c \<Rightarrow> c)
                             (np_mean E (map Some (case d_data (dss ! i) of None \<Rightarrow> [] | Some v \<Rightarrow> v))))
           \<and> (\<forall>i. length dss \<le> i \<and> i < length axs \<longrightarrow> axs ! i = Hidden)
           \<and> (length dss = 3 \<longrightarrow>
                 multi_histogram_figure E dss
                   = Inr (Subplots 2 2 [dataset_axes E (dss ! 0), dataset_axes E (dss ! 1),
                                        dataset_axes E (dss ! 2), Hidden]))
           \<and> generate_multi_histogram E w \<lparr>datasets = Some dss\<rparr>
               = (case save_figure E w (Subplots (nat \<lceil>real (length dss) / 2\<rceil>) 2 axs) ''multi_histogram'' of
                    Inl e \<Rightarrow> (w, Err500 e)
                  | Inr (w', d) \<Rightarrow> (w', Ok200 d))"
proof -
  let ?n = "length dss"
  let ?rows = "(?n + 1) div 2"
  let ?axs = "map (dataset_axes E) dss @ replicate (?rows * 2 - ?n) Hidden"
  have rows: "?rows = nat \<lceil>real ?n / 2\<rceil>" by linarith
  have fig: "multi_histogram_figure E dss = Inr (Subplots ?rows 2 ?axs)"
    by (rule multi_histogram_figure_eq[OF assms])
  have len: "length ?axs = ?rows * 2" by simp
  have plotted: "\<forall>i < ?n. ?axs ! i = HistAxes (map Some (case d_data (dss ! i) of None \<Rightarrow> [] | Some v \<Rightarrow> v)) 20
                             (case d_color (dss ! i) of None \<Rightarrow> ''#3b82f6'' | Some c \<Rightarrow> c)
                             (np_mean E (map Some (case d_data (dss ! i) of None \<Rightarrow> [] | Some v \<Rightarrow> v)))"
    by (simp add: nth_append dataset_axes_def Let_def)
  have hidden: "\<forall>i. ?n \<le> i \<and> i < length ?axs \<longrightarrow> ?axs ! i = Hidden"
    by (auto simp: nth_append)
  have three: "?n = 3 \<longrightarrow> multi_histogram_figure E dss
                   = Inr (Subplots 2 2 [dataset_axes E (dss ! 0), dataset_axes E (dss ! 1),
                                        dataset_axes E (dss ! 2), Hidden])"
  proof
    assume n3: "?n = 3"
    then obtain a b c where abc: "dss = [a, b, c]"
      by (auto simp: length_Suc_conv numeral_3_eq_3)
    from n3 have r2: "?rows = 2" and k1: "?rows * 2 - ?n = 1" by simp_all
    have "?axs = [dataset_axes E (dss ! 0), dataset_axes E (dss ! 1), dataset_axes E (dss ! 2), Hidden]"
      unfolding k1 by (simp add: abc)
    with fig r2 show "multi_histogram_figure E dss
                   = Inr (Subplots 2 2 [dataset_axes E (dss ! 0), dataset_axes E (dss ! 1),
                                        dataset_axes E (dss ! 2), Hidden])"
      by simp
  qed
  have handler: "generate_multi_histogram E w \<lparr>datasets = Some dss\<rparr>
               = (case save_figure E w (Subplots ?rows 2 ?axs) ''multi_histogram'' of
                    Inl e \<Rightarrow> (w, Err500 e)
                  | Inr (w', d) \<Rightarrow> (w', Ok200 d))"
    using assms by (simp add: generate_multi_histogram_def fig)
  show ?thesis
    apply (rule exI[of _ ?axs])
    using fig len plotted hidden three handler unfolding rows[symmetric] by blast
qed

theorem multi_histogram_grid_witness:
  "2 \<le> length [\<lparr>d_data = Some [1, 2], d_color = None\<rparr>,
                 \<lparr>d_data = Some [3], d_color = Some ''#10b981''\<rparr>,
                 \<lparr>d_data = Some [4, 6], d_color = None\<rparr>]
   \<and> multi_histogram_figure (stub_backend distinct_uuids)
         [\<lparr>d_data = Some [1, 2], d_color = None\<rparr>,
          \<lparr>d_data = Some [3], d_color = Some ''#10b981''\<rparr>,
          \<lparr>d_data = Some [4, 6], d_color = None\<rparr>]
       = Inr (Subplots 2 2 [HistAxes [Some 1, Some 2] 20 ''#3b82f6'' NaN,
                            HistAxes [Some 3] 20 ''#10b981'' NaN,
                            HistAxes [Some 4, Some 6] 20 ''#3b82f6'' NaN,
                            Hidden])"
proof -
  let ?E = "stub_backend distinct_uuids"
  let ?dss = "[\<lparr>d_data = Some [1, 2], d_color = None\<rparr>,
               \<lparr>d_data = Some [3], d_color = Some ''#10b981''\<rparr>,
               \<lparr>d_data = Some [4, 6], d_color = None\<rparr>]"
  have h: "2 \<le> length ?dss" by simp
  have l3: "length ?dss = 3" by simp
  from multi_histogram_grid[OF h, of ?E] l3
  have "multi_histogram_figure ?E ?dss
          = Inr (Subplots 2 2 [dataset_axes ?E (?dss ! 0), dataset_axes ?E (?dss ! 1),
                               dataset_axes ?E (?dss ! 2), Hidden])"
    by blast
  then have "multi_histogram_figure ?E ?dss
       = Inr (Subplots 2 2 [HistAxes [Some 1, Some 2] 20 ''#3b82f6'' NaN,
                            HistAxes [Some 3] 20 ''#10b981'' NaN,
                            HistAxes [Some 4, Some 6] 20 ''#3b82f6'' NaN,
                            Hidden])"
    by (simp add: dataset_axes_def stub_backend_def)
  with h show ?thesis by blast
qed

section \<open>The panels of the blood-data report\<close>

lemma add_panel_total:
  "draw E fig = Inr png \<Longrightarrow> \<exists>st'. add_panel E fig prefix st = Inr st'"
  by (simp add: add_panel_def save_figure_def Let_def)

lemma class_distribution_zero:
  "class_count df 0 + class_count df 1 = 0 \<Longrightarrow> class_distribution df = Inl ZeroDivisionError"
  by (simp add: class_distribution_def Let_def py_truediv_def)














section \<open>A class column without class 0 or 1\<close>

lemma class_count_zero:
  "\<forall>r \<in> set df. r ''class'' \<noteq> Some c \<Longrightarrow> class_count df c = 0"
  by (simp add: class_count_def filter_empty_conv)

text \<open>
  Claim C10. When the records have a class column and no record has class 0 or 1, both
  counts are the Python integer 0, the first percentage divides by zero, and the request
  is answered with a 500 and no list of descriptors, whatever the backend does; when the
  backend draws the earlier panels the error is the \<^verbatim>\<open>ZeroDivisionError\<close>.
\<close>

theorem class_column_without_0_or_1_fails:
  assumes ne: "df \<noteq> []"
    and cls: "has_column df ''class''"
    and none: "\<forall>r \<in> set df. r ''class'' \<noteq> Some 0 \<and> r ''class'' \<noteq> Some 1"
  shows "class_distribution df = Inl ZeroDivisionError
       \<and> (\<exists>w' e. visualize_blood_data E w \<lparr>records = Some df\<rparr> = (w', Err500 e))
       \<and> ((\<forall>fig. \<exists>png. draw E fig = Inr png) \<longrightarrow>
            snd (visualize_blood_data E w \<lparr>records = Some df\<rparr>) = Err500 ZeroDivisionError)"
proof -
  from none have z: "class_count df 0 + class_count df 1 = 0"
    by (simp add: class_count_zero)
  then have cd: "class_distribution df = Inl ZeroDivisionError"
    by (rule class_distribution_zero)
  have fail: "\<exists>e w'. blood_panels E df (w, []) = Inl (e, w')"
    unfolding blood_panels_def using cls cd
    by (auto split: sum.splits)
  then have r500: "\<exists>w' e. visualize_blood_data E w \<lparr>records = Some df\<rparr> = (w', Err500 e)"
    using ne by (auto simp: visualize_blood_data_def)
  have zd: "(\<forall>fig. \<exists>png. draw E fig = Inr png) \<longrightarrow>
            snd (visualize_blood_data E w \<lparr>records = Some df\<rparr>) = Err500 ZeroDivisionError"
  proof
    assume ok: "\<forall>fig. \<exists>png. draw E fig = Inr png"
    have ap: "\<And>fig prefix st. \<exists>st'. add_panel E fig prefix st = Inr st'"
    proof -
      fix fig prefix and st :: "world \<times> descriptor list"
      from ok obtain png where "draw E fig = Inr png" by blast
      from add_panel_total[OF this, of prefix st]
      show "\<exists>st'. add_panel E fig prefix st = Inr st'" by auto
    qed
    obtain st1 where p1: "add_panel E (blood_histograms E df) ''blood_histograms'' (w, []) = Inr st1"
      using ap by blast
    obtain st2 where p2: "(if has_column df ''frequency'' \<and> has_column df ''monetary'' \<and> has_column df ''class''
            then add_panel E (frequency_vs_monetary df) ''frequency_vs_monetary'' st1
            else Inr st1) = Inr st2"
      using ap by (metis (full_types))
    have "blood_panels E df (w, []) = Inl (ZeroDivisionError, fst st2)"
      unfolding blood_panels_def p1 sum.case p2 by (simp add: cls cd)
    then show "snd (visualize_blood_data E w \<lparr>records = Some df\<rparr>) = Err500 ZeroDivisionError"
      using ne by (simp add: visualize_blood_data_def)
  qed
  from cd r500 zd show ?thesis by blast
qed

theorem class_column_without_0_or_1_fails_witness:
  "[[''class'' \<mapsto> 2]] \<noteq> ([] :: blood_record list)
   \<and> has_column [[''class'' \<mapsto> 2]] ''class''
   \<and> ([''class'' \<mapsto> 2] :: blood_record) ''class'' \<noteq> Some 0
   \<and> ([''class'' \<mapsto> 2] :: blood_record) ''class'' \<noteq> Some 1
   \<and> snd (visualize_blood_data (stub_backend distinct_uuids)
             \<lparr>image_dir = [], clock = 0, local_now = 0, uuid_calls = 0\<rparr>
             \<lparr>records = Some [[''class'' \<mapsto> 2]]\<rparr>) = Err500 ZeroDivisionError"
proof -
  let ?df = "[[''class'' \<mapsto> 2]] :: blood_record list"
  let ?E = "stub_backend distinct_uuids"
  have ne: "?df \<noteq> []" by simp
  have cls: "has_column ?df ''class''" by (simp add: has_column_def)
  have none: "\<forall>r \<in> set ?df. r ''class'' \<noteq> Some 0 \<and> r ''class'' \<noteq> Some 1" by simp
  have ok: "\<forall>fig. \<exists>png. draw ?E fig = Inr png" by (simp add: stub_backend_def)
  from class_column_without_0_or_1_fails[OF ne cls none, of ?E "\<lparr>image_dir = [], clock = 0, local_now = 0, uuid_calls = 0\<rparr>"] ok
  have "snd (visualize_blood_data ?E \<lparr>image_dir = [], clock = 0, local_now = 0, uuid_calls = 0\<rparr>
               \<lparr>records = Some ?df\<rparr>) = Err500 ZeroDivisionError"
    by blast
  with ne cls show ?thesis by simp
qed

end
